theory Spec2Isabelle
  imports Complex_Main "HOL-Library.AList"
begin

section \<open>Values, documents and errors\<close>

text \<open>
  A stored document is a Python dict from field names to values. Python dicts keep the
  order of insertion and have one entry per key, so a document is an association list
  whose keys are distinct; \<open>AList.update\<close> is Python's \<^verbatim>\<open>doc[k] = v\<close> (in place for a
  key that is there, at the end otherwise), \<open>AList.delete\<close> removes a key and
  \<open>map_of\<close> reads one.

  A float is read as a real number (the claims only pass prices through and test their
  sign). A native temporal value is named by its ISO-8601 text, which is what
  \<^verbatim>\<open>isoformat()\<close> returns for it. An identifier of the store is named by its canonical
  24-digit text.
\<close>

datatype val =
    VNull
  | VBool bool
  | VNum real
  | VStr string
  | VList "val list"
  | VObjectId string
  | VDatetime string

type_synonym doc = "(string \<times> val) list"

datatype error =
    RequestValidationError
  | HTTPException nat string
  | KeyError string
  | OperationFailure

text \<open>The status the framework answers with for each error.\<close>

fun status_code :: "error \<Rightarrow> nat" where
  "status_code RequestValidationError = 422"
| "status_code (HTTPException c d) = c"
| "status_code (KeyError k) = 500"
| "status_code OperationFailure = 500"

section \<open>What the libraries decide\<close>

text \<open>
  The program calls into bson, pydantic's \<^verbatim>\<open>EmailStr\<close>, Python's \<^verbatim>\<open>str\<close> and the
  store's regular-expression engine. Their decisions are parameters of the model:
  \<^item> \<open>is_valid s\<close>: \<^verbatim>\<open>ObjectId.is_valid(s)\<close>;
  \<^item> \<open>ObjectId s\<close>: the canonical text of \<^verbatim>\<open>ObjectId(s)\<close>, for a valid \<open>s\<close>;
  \<^item> \<open>str_of v\<close>: \<^verbatim>\<open>str(v)\<close>;
  \<^item> \<open>EmailStr s\<close>: the normalised address, or \<open>None\<close> when \<open>s\<close> is not an address;
  \<^item> \<open>regex p opts\<close>: the unanchored search that pattern \<open>p\<close> compiles to under the
    options \<open>opts\<close>, or \<open>None\<close> when the store rejects the pattern.
\<close>

record ext =
  is_valid :: "string \<Rightarrow> bool"
  ObjectId :: "string \<Rightarrow> string"
  str_of :: "val \<Rightarrow> string"
  EmailStr :: "string \<Rightarrow> string option"
  regex :: "string \<Rightarrow> string \<Rightarrow> (string \<Rightarrow> bool) option"

section \<open>The serializer (main.py, serialize_doc)\<close>

text \<open>\<^verbatim>\<open>hasattr(v, "isoformat")\<close> and \<^verbatim>\<open>v.isoformat()\<close> in one: the text for a temporal
  value, \<open>None\<close> for every other value.\<close>

fun isoformat :: "val \<Rightarrow> string option" where
  "isoformat (VDatetime t) = Some t"
| "isoformat v = None"

text \<open>One round of the loop over \<^verbatim>\<open>list(doc.items())\<close>.\<close>

definition convert_item :: "doc \<Rightarrow> string \<times> val \<Rightarrow> doc" where
  "convert_item d kv =
     (case isoformat (snd kv) of
        Some t \<Rightarrow> AList.update (fst kv) (VStr t) d
      | None \<Rightarrow> d)"

text \<open>
  \<^verbatim>\<open>if not doc\<close> holds for \<^verbatim>\<open>None\<close> and for the empty dict. \<^verbatim>\<open>doc.pop("_id")\<close>
  has no default, so it raises \<^verbatim>\<open>KeyError\<close> on a dict without that key.
\<close>

definition serialize_doc :: "ext \<Rightarrow> doc option \<Rightarrow> error + doc option" where
  "serialize_doc E doc =
     (case doc of
        None \<Rightarrow> Inr None
      | Some d \<Rightarrow>
          if d = [] then Inr (Some d)
          else (case map_of d ''_id'' of
                  None \<Rightarrow> Inl (KeyError ''_id'')
                | Some v \<Rightarrow>
                    let d1 = AList.update ''id'' (VStr (str_of E v)) (AList.delete ''_id'' d)
                    in Inr (Some (foldl convert_item d1 d1))))"

text \<open>The list comprehension \<^verbatim>\<open>[serialize_doc(d) for d in docs]\<close>: the first failure
  ends it.\<close>

fun serialize_all :: "ext \<Rightarrow> doc list \<Rightarrow> error + doc option list" where
  "serialize_all E [] = Inr []"
| "serialize_all E (d # ds) =
     (case serialize_doc E (Some d) of
        Inl e \<Rightarrow> Inl e
      | Inr s \<Rightarrow> (case serialize_all E ds of Inl e \<Rightarrow> Inl e | Inr ss \<Rightarrow> Inr (s # ss)))"

section \<open>The document store\<close>

text \<open>
  The store holds one list of documents for each collection name, in the order of
  insertion. Every call the program makes to the store is recorded in \<open>calls\<close>, so
  that a statement that a lookup or a write did not happen is a statement about the
  state. The store handle is taken to be connected.
\<close>

text \<open>A query filter as the handlers build it: a dict from a field name (or the
  operator \<^verbatim>\<open>$or\<close>) to a condition.\<close>

datatype cond =
    Equals val
  | Regex string string
  | AnyOf "(string \<times> cond) list list"

type_synonym filter = "(string \<times> cond) list"

datatype store_call =
    FindOne string string
  | InsertOne string doc
  | Find string filter nat

record db =
  collections :: "string \<Rightarrow> doc list"
  calls :: "store_call list"

text \<open>\<^verbatim>\<open>db[coll].find_one({"_id": ObjectId(s)})\<close>, the driver's point read: the first
  document of the collection with that identifier.\<close>

definition find_one :: "string \<Rightarrow> string \<Rightarrow> db \<Rightarrow> doc option \<times> db" where
  "find_one coll oid s =
     (find (\<lambda>d. map_of d ''_id'' = Some (VObjectId oid)) (collections s coll),
      s\<lparr>calls := calls s @ [FindOne coll oid]\<rparr>)"

text \<open>Whether every pattern of a filter compiles, and whether a document satisfies a
  filter whose patterns compile. A pattern is searched in a field that holds a string.\<close>

fun cond_compiles :: "ext \<Rightarrow> cond \<Rightarrow> bool" where
  "cond_compiles E (Equals v) = True"
| "cond_compiles E (Regex p opts) = (regex E p opts \<noteq> None)"
| "cond_compiles E (AnyOf fs) = list_all (list_all (\<lambda>kc. cond_compiles E (snd kc))) fs"

fun search_in :: "(string \<Rightarrow> bool) option \<Rightarrow> val option \<Rightarrow> bool" where
  "search_in (Some m) (Some (VStr s)) = m s"
| "search_in m v = False"

fun satisfies :: "ext \<Rightarrow> doc \<Rightarrow> string \<times> cond \<Rightarrow> bool" where
  "satisfies E d (k, Equals v) = (map_of d k = Some v)"
| "satisfies E d (k, Regex p opts) = search_in (regex E p opts) (map_of d k)"
| "satisfies E d (k, AnyOf fs) = list_ex (list_all (satisfies E d)) fs"

text \<open>
  Modelled from the spec: \<^verbatim>\<open>get_documents\<close> of database.py, which is not among the
  sources. Section 4.3: a filtered scan capped at the limit, in the store's order, with
  exact-match equality on a field and case-insensitive pattern search combined by a
  logical or. A pattern the store rejects fails the query.
\<close>

definition get_documents :: "ext \<Rightarrow> string \<Rightarrow> filter \<Rightarrow> nat \<Rightarrow> db \<Rightarrow> (error + doc list) \<times> db" where
  "get_documents E coll filt limit s =
     ((if list_all (\<lambda>kc. cond_compiles E (snd kc)) filt
       then Inr (take limit (filter (\<lambda>d. list_all (satisfies E d) filt) (collections s coll)))
       else Inl OperationFailure),
      s\<lparr>calls := calls s @ [Find coll filt limit]\<rparr>)"

text \<open>
  Modelled from the spec: \<^verbatim>\<open>create_document\<close> of database.py, which is not among the
  sources. Section 4.3: inserts the record and returns a newly generated identifier,
  here \<open>new_id\<close>, the identifier the store generates for this insert.
\<close>

definition create_document :: "string \<Rightarrow> doc \<Rightarrow> string \<Rightarrow> db \<Rightarrow> string \<times> db" where
  "create_document coll data new_id s =
     (new_id,
      s\<lparr>collections := (collections s)(coll := collections s coll @ [(''_id'', VObjectId new_id) # data]),
        calls := calls s @ [InsertOne coll data]\<rparr>)"

section \<open>The schemas (schemas.py)\<close>

record User =
  name :: string
  email :: string
  role :: string
  bio :: "string option"
  skills :: "string list option"
  avatar_url :: "string option"
  is_active :: bool

text \<open>\<open>creator_name\<close> is declared an optional string, and the handler assigns to it
  whatever the creator's document holds under \<^verbatim>\<open>name\<close> (assignment is not validated),
  so the attribute is a value; \<open>VNull\<close> is \<^verbatim>\<open>None\<close>.\<close>

record Gig =
  title :: string
  description :: string
  category :: string
  price :: real
  creator_id :: string
  creator_name :: val

record Proposal =
  gig_id :: string
  client_id :: string
  message :: string
  offered_price :: "real option"
  status :: string

text \<open>
  What the request body holds for one field once the validator has coerced it to the
  declared type: nothing, something that is not of the type, or a value of the type.
  For a field declared \<^verbatim>\<open>Optional\<close>, the value \<open>None\<close> is a JSON null.
\<close>

datatype 'a input = Absent | Invalid | Given 'a

record User_body =
  name_in :: "string input"
  email_in :: "string input"
  role_in :: "string input"
  bio_in :: "string option input"
  skills_in :: "string list option input"
  avatar_url_in :: "string option input"
  is_active_in :: "bool input"

record Gig_body =
  title_in :: "string input"
  description_in :: "string input"
  category_in :: "string input"
  price_in :: "real input"
  creator_id_in :: "string input"
  creator_name_in :: "string option input"

record Proposal_body =
  gig_id_in :: "string input"
  client_id_in :: "string input"
  message_in :: "string input"
  offered_price_in :: "real option input"
  status_in :: "string input"

text \<open>A field declared with \<^verbatim>\<open>Field(...)\<close> is required; a field with a default takes
  the default when the body does not have it. \<open>checked\<close> applies a constraint
  (\<^verbatim>\<open>pattern\<close>, \<^verbatim>\<open>ge\<close>) to a field that passed.\<close>

fun required :: "'a input \<Rightarrow> 'a option" where
  "required (Given x) = Some x"
| "required Absent = None"
| "required Invalid = None"

fun with_default :: "'a \<Rightarrow> 'a input \<Rightarrow> 'a option" where
  "with_default d (Given x) = Some x"
| "with_default d Absent = Some d"
| "with_default d Invalid = None"

fun checked :: "('a \<Rightarrow> bool) \<Rightarrow> 'a option \<Rightarrow> 'a option" where
  "checked P (Some x) = (if P x then Some x else None)"
| "checked P None = None"

text \<open>The pattern \<^verbatim>\<open>^(creator|client)$\<close> of \<open>role\<close> and the pattern
  \<^verbatim>\<open>^(pending|accepted|rejected)$\<close> of \<open>status\<close>: anchored at both ends, so each
  accepts exactly its alternatives.\<close>

definition role_pattern :: "string \<Rightarrow> bool" where
  "role_pattern s = (s = ''creator'' \<or> s = ''client'')"

definition status_pattern :: "string \<Rightarrow> bool" where
  "status_pattern s = (s = ''pending'' \<or> s = ''accepted'' \<or> s = ''rejected'')"

text \<open>\<^verbatim>\<open>ge=0\<close> on an optional float constrains the float when there is one.\<close>

fun ge0_opt :: "real option \<Rightarrow> bool" where
  "ge0_opt None = True"
| "ge0_opt (Some x) = (0 \<le> x)"

text \<open>The validators: every field is examined, and the body is rejected when any of
  them fails. \<open>name\<close> has no constraint beyond being a string.\<close>

definition validate_User :: "ext \<Rightarrow> User_body \<Rightarrow> error + User" where
  "validate_User E b =
     (case (required (name_in b),
            Option.bind (required (email_in b)) (EmailStr E),
            checked role_pattern (required (role_in b)),
            with_default None (bio_in b),
            with_default (Some []) (skills_in b),
            with_default None (avatar_url_in b),
            with_default True (is_active_in b)) of
        (Some n, Some e, Some r, Some bi, Some sk, Some av, Some ac) \<Rightarrow>
          Inr \<lparr>name = n, email = e, role = r, bio = bi, skills = sk,
               avatar_url = av, is_active = ac\<rparr>
      | _ \<Rightarrow> Inl RequestValidationError)"

definition validate_Gig :: "Gig_body \<Rightarrow> error + Gig" where
  "validate_Gig b =
     (case (required (title_in b),
            required (description_in b),
            required (category_in b),
            checked (\<lambda>x. 0 \<le> x) (required (price_in b)),
            required (creator_id_in b),
            with_default None (creator_name_in b)) of
        (Some t, Some d, Some c, Some p, Some ci, Some cn) \<Rightarrow>
          Inr \<lparr>title = t, description = d, category = c, price = p, creator_id = ci,
               creator_name = (case cn of None \<Rightarrow> VNull | Some n \<Rightarrow> VStr n)\<rparr>
      | _ \<Rightarrow> Inl RequestValidationError)"

definition validate_Proposal :: "Proposal_body \<Rightarrow> error + Proposal" where
  "validate_Proposal b =
     (case (required (gig_id_in b),
            required (client_id_in b),
            required (message_in b),
            checked ge0_opt (with_default None (offered_price_in b)),
            checked status_pattern (with_default ''pending'' (status_in b))) of
        (Some g, Some c, Some m, Some op, Some st) \<Rightarrow>
          Inr \<lparr>gig_id = g, client_id = c, message = m, offered_price = op, status = st\<rparr>
      | _ \<Rightarrow> Inl RequestValidationError)"

text \<open>\<^verbatim>\<open>model_dump()\<close>: the fields of a model as a dict, in the order of declaration.\<close>

definition opt_str :: "string option \<Rightarrow> val" where
  "opt_str x = (case x of None \<Rightarrow> VNull | Some s \<Rightarrow> VStr s)"

definition dump_User :: "User \<Rightarrow> doc" where
  "dump_User u =
     [(''name'', VStr (name u)), (''email'', VStr (email u)), (''role'', VStr (role u)),
      (''bio'', opt_str (bio u)),
      (''skills'', (case skills u of None \<Rightarrow> VNull | Some l \<Rightarrow> VList (map VStr l))),
      (''avatar_url'', opt_str (avatar_url u)),
      (''is_active'', VBool (is_active u))]"

definition dump_Gig :: "Gig \<Rightarrow> doc" where
  "dump_Gig g =
     [(''title'', VStr (title g)), (''description'', VStr (description g)),
      (''category'', VStr (category g)), (''price'', VNum (price g)),
      (''creator_id'', VStr (creator_id g)), (''creator_name'', creator_name g)]"

definition dump_Proposal :: "Proposal \<Rightarrow> doc" where
  "dump_Proposal p =
     [(''gig_id'', VStr (gig_id p)), (''client_id'', VStr (client_id p)),
      (''message'', VStr (message p)),
      (''offered_price'', (case offered_price p of None \<Rightarrow> VNull | Some x \<Rightarrow> VNum x)),
      (''status'', VStr (status p))]"

section \<open>The handlers (main.py)\<close>

text \<open>\<^verbatim>\<open>d.get(k)\<close>: the value under \<open>k\<close>, \<^verbatim>\<open>None\<close> when there is none.\<close>

definition dict_get :: "doc \<Rightarrow> string \<Rightarrow> val" where
  "dict_get d k = (case map_of d k of None \<Rightarrow> VNull | Some v \<Rightarrow> v)"

text \<open>The response of a listing: the documents found, each serialized.\<close>

definition respond :: "ext \<Rightarrow> (error + doc list) \<times> db \<Rightarrow> (error + doc option list) \<times> db" where
  "respond E r =
     (case fst r of
        Inl e \<Rightarrow> (Inl e, snd r)
      | Inr docs \<Rightarrow> (serialize_all E docs, snd r))"

subsection \<open>Users\<close>

definition create_user :: "User \<Rightarrow> string \<Rightarrow> db \<Rightarrow> (error + string) \<times> db" where
  "create_user user new_id s =
     (case create_document ''user'' (dump_User user) new_id s of
        (user_id, s') \<Rightarrow> (Inr user_id, s'))"

text \<open>\<^verbatim>\<open>{"role": role} if role else {}\<close>: a string is true when it is not empty.\<close>

definition list_users :: "ext \<Rightarrow> string option \<Rightarrow> db \<Rightarrow> (error + doc option list) \<times> db" where
  "list_users E role_q s =
     (let filt = (case role_q of
                    None \<Rightarrow> []
                  | Some r \<Rightarrow> if r \<noteq> [] then [(''role'', Equals (VStr r))] else [])
      in respond E (get_documents E ''user'' filt 100 s))"

subsection \<open>Gigs\<close>

text \<open>The creator is looked up only when the identifier is valid; \<^verbatim>\<open>not creator\<close>
  holds for \<^verbatim>\<open>None\<close> and for an empty dict.\<close>

definition create_gig :: "ext \<Rightarrow> Gig \<Rightarrow> string \<Rightarrow> db \<Rightarrow> (error + string) \<times> db" where
  "create_gig E gig new_id s =
     (case (if is_valid E (creator_id gig)
            then find_one ''user'' (ObjectId E (creator_id gig)) s
            else (None, s)) of
        (creator, s1) \<Rightarrow>
          (case creator of
             None \<Rightarrow> (Inl (HTTPException 404 ''Creator not found''), s1)
           | Some c \<Rightarrow>
               if c = [] then (Inl (HTTPException 404 ''Creator not found''), s1)
               else (case create_document ''gig''
                            (dump_Gig (gig\<lparr>creator_name := dict_get c ''name''\<rparr>)) new_id s1 of
                       (new_gig_id, s2) \<Rightarrow> (Inr new_gig_id, s2))))"

definition list_gigs ::
  "ext \<Rightarrow> string option \<Rightarrow> string option \<Rightarrow> db \<Rightarrow> (error + doc option list) \<times> db" where
  "list_gigs E category_q q s =
     (let filt0 = [];
          filt1 = (case category_q of
                     None \<Rightarrow> filt0
                   | Some c \<Rightarrow>
                       if c \<noteq> [] then AList.update ''category'' (Equals (VStr c)) filt0
                       else filt0);
          filt2 = (case q of
                     None \<Rightarrow> filt1
                   | Some p \<Rightarrow>
                       if p \<noteq> []
                       then AList.update ''$or''
                              (AnyOf [[(''title'', Regex p ''i'')],
                                      [(''description'', Regex p ''i'')],
                                      [(''creator_name'', Regex p ''i'')]]) filt1
                       else filt1)
      in respond E (get_documents E ''gig'' filt2 100 s))"

subsection \<open>Proposals\<close>

definition create_proposal :: "ext \<Rightarrow> Proposal \<Rightarrow> string \<Rightarrow> db \<Rightarrow> (error + string) \<times> db" where
  "create_proposal E p new_id s =
     (case (if is_valid E (gig_id p)
            then find_one ''gig'' (ObjectId E (gig_id p)) s
            else (None, s)) of
        (gig, s1) \<Rightarrow>
          if gig = None \<or> gig = Some [] then (Inl (HTTPException 404 ''Gig not found''), s1)
          else (case (if is_valid E (client_id p)
                      then find_one ''user'' (ObjectId E (client_id p)) s1
                      else (None, s1)) of
                  (client, s2) \<Rightarrow>
                    if client = None \<or> client = Some []
                    then (Inl (HTTPException 404 ''Client not found''), s2)
                    else (case create_document ''proposal'' (dump_Proposal p) new_id s2 of
                            (prop_id, s3) \<Rightarrow> (Inr prop_id, s3))))"

definition list_proposals ::
  "ext \<Rightarrow> string option \<Rightarrow> string option \<Rightarrow> db \<Rightarrow> (error + doc option list) \<times> db" where
  "list_proposals E gig_q client_q s =
     (let filt0 = [];
          filt1 = (case gig_q of
                     None \<Rightarrow> filt0
                   | Some g \<Rightarrow>
                       if g \<noteq> [] \<and> is_valid E g
                       then AList.update ''gig_id'' (Equals (VStr g)) filt0
                       else filt0);
          filt2 = (case client_q of
                     None \<Rightarrow> filt1
                   | Some c \<Rightarrow>
                       if c \<noteq> [] \<and> is_valid E c
                       then AList.update ''client_id'' (Equals (VStr c)) filt1
                       else filt1)
      in respond E (get_documents E ''proposal'' filt2 100 s))"

section \<open>The endpoints: validation, then the handler\<close>

text \<open>The framework validates the body against the schema and calls the handler only
  with a model that passed; a body that fails is answered without the handler running.\<close>

definition post_users :: "ext \<Rightarrow> User_body \<Rightarrow> string \<Rightarrow> db \<Rightarrow> (error + string) \<times> db" where
  "post_users E b new_id s =
     (case validate_User E b of
        Inl e \<Rightarrow> (Inl e, s)
      | Inr user \<Rightarrow> create_user user new_id s)"

definition post_gigs :: "ext \<Rightarrow> Gig_body \<Rightarrow> string \<Rightarrow> db \<Rightarrow> (error + string) \<times> db" where
  "post_gigs E b new_id s =
     (case validate_Gig b of
        Inl e \<Rightarrow> (Inl e, s)
      | Inr gig \<Rightarrow> create_gig E gig new_id s)"

definition post_proposals :: "ext \<Rightarrow> Proposal_body \<Rightarrow> string \<Rightarrow> db \<Rightarrow> (error + string) \<times> db" where
  "post_proposals E b new_id s =
     (case validate_Proposal b of
        Inl e \<Rightarrow> (Inl e, s)
      | Inr p \<Rightarrow> create_proposal E p new_id s)"

text \<open>A request to the API, with the identifier the store would generate for it when it
  is a creation; the store after a request, and after a sequence of them.\<close>

datatype request =
    PostUser User_body string
  | PostGig Gig_body string
  | PostProposal Proposal_body string
  | GetUsers "string option"
  | GetGigs "string option" "string option"
  | GetProposals "string option" "string option"

fun handle :: "ext \<Rightarrow> db \<Rightarrow> request \<Rightarrow> db" where
  "handle E s (PostUser b i) = snd (post_users E b i s)"
| "handle E s (PostGig b i) = snd (post_gigs E b i s)"
| "handle E s (PostProposal b i) = snd (post_proposals E b i s)"
| "handle E s (GetUsers r) = snd (list_users E r s)"
| "handle E s (GetGigs c q) = snd (list_gigs E c q s)"
| "handle E s (GetProposals g c) = snd (list_proposals E g c s)"

definition empty_db :: db where
  "empty_db = \<lparr>collections = (\<lambda>c. []), calls = []\<rparr>"

definition run :: "ext \<Rightarrow> request list \<Rightarrow> db" where
  "run E rs = foldl (handle E) empty_db rs"

section \<open>Properties of stored documents\<close>

text \<open>The store gives every document it holds an identifier under \<^verbatim>\<open>_id\<close>.\<close>

definition has_id :: "doc \<Rightarrow> bool" where
  "has_id d = (map_of d ''_id'' \<noteq> None)"

text \<open>A stored proposal whose \<open>status\<close> is one of the three enumerated values.\<close>

definition status_ok :: "doc \<Rightarrow> bool" where
  "status_ok d =
     (case map_of d ''status'' of
        Some (VStr st) \<Rightarrow> status_pattern st
      | _ \<Rightarrow> False)"

text \<open>Whether a call to the store is a point read of a collection, and whether it is a
  write.\<close>

fun reads :: "string \<Rightarrow> store_call \<Rightarrow> bool" where
  "reads coll (FindOne c i) = (c = coll)"
| "reads coll x = False"

fun writes :: "store_call \<Rightarrow> bool" where
  "writes (InsertOne c d) = True"
| "writes x = False"

section \<open>Substring search, as the specification words it\<close>

text \<open>ASCII letters in lower case; a text contains another, letter case aside, when the
  other starts at some position of it.\<close>

definition lower :: "char \<Rightarrow> char" where
  "lower c =
     (case map_of (zip ''ABCDEFGHIJKLMNOPQRSTUVWXYZ'' ''abcdefghijklmnopqrstuvwxyz'') c of
        Some l \<Rightarrow> l
      | None \<Rightarrow> c)"

fun starts_with_ci :: "string \<Rightarrow> string \<Rightarrow> bool" where
  "starts_with_ci [] s = True"
| "starts_with_ci (p # ps) [] = False"
| "starts_with_ci (p # ps) (c # cs) = (lower p = lower c \<and> starts_with_ci ps cs)"

fun contains_ci :: "string \<Rightarrow> string \<Rightarrow> bool" where
  "contains_ci p [] = starts_with_ci p []"
| "contains_ci p (c # cs) = (starts_with_ci p (c # cs) \<or> contains_ci p cs)"

text \<open>The filter of the specification for a gig listing: the category matches exactly,
  and the query is contained, letter case aside, in the title, the description or the
  creator's name.\<close>

definition field_contains :: "string \<Rightarrow> doc \<Rightarrow> string \<Rightarrow> bool" where
  "field_contains p d k = (case map_of d k of Some (VStr t) \<Rightarrow> contains_ci p t | _ \<Rightarrow> False)"

definition spec_gig_match :: "string \<Rightarrow> string \<Rightarrow> doc \<Rightarrow> bool" where
  "spec_gig_match c p d =
     (map_of d ''category'' = Some (VStr c) \<and>
      (field_contains p d ''title'' \<or> field_contains p d ''description'' \<or>
       field_contains p d ''creator_name''))"

section \<open>An instance of the libraries, for evaluation\<close>

text \<open>
  Concrete decisions for evaluating the program on examples. Each is what the library
  decides on the inputs it is evaluated at below, and is not meant beyond them:
  \<^item> an identifier is valid when it is 24 hexadecimal digits, and its canonical text
    is in lower case;
  \<^item> \<^verbatim>\<open>str\<close> of an identifier is its text, of a string the string, of \<^verbatim>\<open>None\<close>
    and of a boolean their Python names (numbers, lists and temporal values are not
    rendered: the instance gives the empty text for them);
  \<^item> an address is accepted when it is a run of lower-case letters and digits, an
    at-sign, and two or more such runs joined by dots;
  \<^item> a pattern compiles when it is made of ordinary characters and the dot, under
    no option or the option \<^verbatim>\<open>i\<close>; an ordinary character stands for itself, the
    dot for any character but a line feed, and the pattern is searched at every position.
\<close>

definition hex_digit :: "char \<Rightarrow> bool" where
  "hex_digit c = (c \<in> set ''0123456789abcdefABCDEF'')"

fun sample_str :: "val \<Rightarrow> string" where
  "sample_str (VObjectId h) = h"
| "sample_str (VStr t) = t"
| "sample_str VNull = ''None''"
| "sample_str (VBool b) = (if b then ''True'' else ''False'')"
| "sample_str v = []"

definition atom_char :: "char \<Rightarrow> bool" where
  "atom_char c = (c \<in> set ''abcdefghijklmnopqrstuvwxyz0123456789'')"

fun labels :: "string \<Rightarrow> string list" where
  "labels [] = [[]]"
| "labels (c # cs) =
     (if c = CHR ''.'' then [] # labels cs
      else (case labels cs of [] \<Rightarrow> [[c]] | l # ls \<Rightarrow> (c # l) # ls))"

definition sample_email :: "string \<Rightarrow> string option" where
  "sample_email a =
     (let l = takeWhile (\<lambda>c. c \<noteq> CHR ''@'') a;
          r = dropWhile (\<lambda>c. c \<noteq> CHR ''@'') a
      in if l \<noteq> [] \<and> list_all atom_char l \<and>
            (case r of
               [] \<Rightarrow> False
             | sign # host \<Rightarrow>
                 2 \<le> length (labels host) \<and>
                 list_all (\<lambda>lb. lb \<noteq> [] \<and> list_all atom_char lb) (labels host))
         then Some a else None)"

definition metachar :: "char \<Rightarrow> bool" where
  "metachar c = (c \<in> set (CHR 0x5C # ''^$.|?*+()[]{}''))"

fun matches_here :: "bool \<Rightarrow> string \<Rightarrow> string \<Rightarrow> bool" where
  "matches_here ci [] s = True"
| "matches_here ci (p # ps) [] = False"
| "matches_here ci (p # ps) (c # cs) =
     ((if p = CHR ''.'' then c \<noteq> CHR 0x0A
       else if ci then lower p = lower c else p = c) \<and>
      matches_here ci ps cs)"

fun search :: "bool \<Rightarrow> string \<Rightarrow> string \<Rightarrow> bool" where
  "search ci p [] = matches_here ci p []"
| "search ci p (c # cs) = (matches_here ci p (c # cs) \<or> search ci p cs)"

definition sample_regex :: "string \<Rightarrow> string \<Rightarrow> (string \<Rightarrow> bool) option" where
  "sample_regex p opts =
     (if list_all (\<lambda>c. \<not> metachar c \<or> c = CHR ''.'') p \<and> (opts = [] \<or> opts = ''i'')
      then Some (search (opts = ''i'') p)
      else None)"

definition sample :: ext where
  "sample =
     \<lparr>is_valid = (\<lambda>s. length s = 24 \<and> list_all hex_digit s),
      ObjectId = map lower,
      str_of = sample_str,
      EmailStr = sample_email,
      regex = sample_regex\<rparr>"

section \<open>Example data\<close>

text \<open>A store with one user, Ann, one gig of hers, and one proposal for it.\<close>

definition ann :: doc where
  "ann = [(''_id'', VObjectId ''0123456789abcdef01234567''), (''name'', VStr ''Ann''),
          (''email'', VStr ''ann@x.com''), (''role'', VStr ''creator''), (''bio'', VNull),
          (''skills'', VList []), (''avatar_url'', VNull), (''is_active'', VBool True)]"

definition logo :: doc where
  "logo = [(''_id'', VObjectId ''89abcdef0123456789abcdef''), (''title'', VStr ''Logo''),
           (''description'', VStr ''design''), (''category'', VStr ''design''),
           (''price'', VNum 50), (''creator_id'', VStr ''0123456789abcdef01234567''),
           (''creator_name'', VStr ''Ann'')]"

definition hi :: doc where
  "hi = [(''_id'', VObjectId ''aaaaaaaaaaaaaaaaaaaaaaaa''),
         (''gig_id'', VStr ''89abcdef0123456789abcdef''),
         (''client_id'', VStr ''0123456789abcdef01234567''), (''message'', VStr ''hi''),
         (''offered_price'', VNull), (''status'', VStr ''pending'')]"

definition demo_db :: db where
  "demo_db =
     \<lparr>collections = (\<lambda>c. if c = ''user'' then [ann] else if c = ''gig'' then [logo]
                          else if c = ''proposal'' then [hi] else []),
      calls = []\<rparr>"

text \<open>The body of a request for a second gig of Ann's, by a caller who names Mallory
  as its creator.\<close>

definition logo2_body :: Gig_body where
  "logo2_body = \<lparr>title_in = Given ''Logo 2'', description_in = Given ''design'',
                 category_in = Given ''design'', price_in = Given 50,
                 creator_id_in = Given ''0123456789abcdef01234567'',
                 creator_name_in = Given (Some ''Mallory'')\<rparr>"

text \<open>The body of a request for a user whose name is the empty string.\<close>

definition anonymous_body :: User_body where
  "anonymous_body = \<lparr>name_in = Given [], email_in = Given ''ann@x.com'',
                     role_in = Given ''creator'', bio_in = Absent, skills_in = Absent,
                     avatar_url_in = Absent, is_active_in = Absent\<rparr>"

text \<open>The bodies of the requests that create Ann, her gig and a proposal for it that
  names no status.\<close>

definition ann_body :: User_body where
  "ann_body = \<lparr>name_in = Given ''Ann'', email_in = Given ''ann@x.com'',
               role_in = Given ''creator'', bio_in = Absent, skills_in = Absent,
               avatar_url_in = Absent, is_active_in = Absent\<rparr>"

definition logo_body :: Gig_body where
  "logo_body = \<lparr>title_in = Given ''Logo'', description_in = Given ''design'',
                category_in = Given ''design'', price_in = Given 50,
                creator_id_in = Given ''0123456789abcdef01234567'',
                creator_name_in = Absent\<rparr>"

definition hi_body :: Proposal_body where
  "hi_body = \<lparr>gig_id_in = Given ''89abcdef0123456789abcdef'',
              client_id_in = Given ''0123456789abcdef01234567'',
              message_in = Given ''hi'', offered_price_in = Absent, status_in = Absent\<rparr>"

section \<open>The serializer: proofs\<close>

lemma convert_item_plain: "isoformat (snd kv) = None \<Longrightarrow> convert_item d kv = d"
  by (simp add: convert_item_def)

lemma foldl_convert_plain:
  "list_all (\<lambda>kv. isoformat (snd kv) = None) xs \<Longrightarrow> foldl convert_item d xs = d"
  by (induction xs arbitrary: d) (simp_all add: convert_item_plain)

lemma plain_delete:
  "list_all (\<lambda>kv. isoformat (snd kv) = None) d \<Longrightarrow>
   list_all (\<lambda>kv. isoformat (snd kv) = None) (AList.delete k d)"
  by (induction d) (auto simp: AList.delete_eq)

lemma plain_update:
  "list_all (\<lambda>kv. isoformat (snd kv) = None) d \<Longrightarrow> isoformat v = None \<Longrightarrow>
   list_all (\<lambda>kv. isoformat (snd kv) = None) (AList.update k v d)"
  by (induction d) auto

text \<open>
  Claim C4, as the code has it. An absent record and an empty record are returned
  unchanged. A record that is not empty and has no \<^verbatim>\<open>_id\<close> is not passed through:
  the serializer fails with \<^verbatim>\<open>KeyError\<close>. A record with \<^verbatim>\<open>_id\<close> and no temporal value
  loses \<^verbatim>\<open>_id\<close>, gains \<^verbatim>\<open>id\<close> with the text of the identifier, and keeps every other
  field; serializing the result again fails with \<^verbatim>\<open>KeyError\<close>.
\<close>

theorem serialize_doc_cases:
  "serialize_doc E None = Inr None \<and>
   serialize_doc E (Some []) = Inr (Some []) \<and>
   (d \<noteq> [] \<and> map_of d ''_id'' = None \<longrightarrow> serialize_doc E (Some d) = Inl (KeyError ''_id'')) \<and>
   (map_of d ''_id'' = Some v \<and> list_all (\<lambda>kv. isoformat (snd kv) = None) d \<longrightarrow>
      (\<exists>d'. serialize_doc E (Some d) = Inr (Some d') \<and>
            map_of d' ''_id'' = None \<and>
            map_of d' ''id'' = Some (VStr (str_of E v)) \<and>
            (\<forall>k. k \<noteq> ''_id'' \<and> k \<noteq> ''id'' \<longrightarrow> map_of d' k = map_of d k) \<and>
            serialize_doc E (Some d') = Inl (KeyError ''_id'')))"
proof -
  have a: "serialize_doc E None = Inr None"
    by (simp add: serialize_doc_def)
  have b: "serialize_doc E (Some []) = Inr (Some [])"
    by (simp add: serialize_doc_def)
  have c: "serialize_doc E (Some d) = Inl (KeyError ''_id'')"
    if "d \<noteq> []" "map_of d ''_id'' = None"
    using that by (simp add: serialize_doc_def)
  have e: "\<exists>d'. serialize_doc E (Some d) = Inr (Some d') \<and>
            map_of d' ''_id'' = None \<and>
            map_of d' ''id'' = Some (VStr (str_of E v)) \<and>
            (\<forall>k. k \<noteq> ''_id'' \<and> k \<noteq> ''id'' \<longrightarrow> map_of d' k = map_of d k) \<and>
            serialize_doc E (Some d') = Inl (KeyError ''_id'')"
    if v: "map_of d ''_id'' = Some v" and p: "list_all (\<lambda>kv. isoformat (snd kv) = None) d"
  proof -
    define d1 where "d1 = AList.update ''id'' (VStr (str_of E v)) (AList.delete ''_id'' d)"
    have ne: "d \<noteq> []" using v by auto
    have "list_all (\<lambda>kv. isoformat (snd kv) = None) d1"
      unfolding d1_def using p by (intro plain_update plain_delete) simp_all
    then have f: "foldl convert_item d1 d1 = d1"
      by (rule foldl_convert_plain)
    have s: "serialize_doc E (Some d) = Inr (Some d1)"
      using v ne f by (simp add: serialize_doc_def d1_def Let_def)
    have i1: "map_of d1 ''_id'' = None"
      by (simp add: d1_def update_conv' delete_conv')
    have i2: "map_of d1 ''id'' = Some (VStr (str_of E v))"
      by (simp add: d1_def update_conv')
    have i3: "\<forall>k. k \<noteq> ''_id'' \<and> k \<noteq> ''id'' \<longrightarrow> map_of d1 k = map_of d k"
      by (simp add: d1_def update_conv' delete_conv')
    have "d1 \<noteq> []" using i2 by auto
    then have i4: "serialize_doc E (Some d1) = Inl (KeyError ''_id'')"
      using i1 by (simp add: serialize_doc_def)
    show ?thesis using s i1 i2 i3 i4 by blast
  qed
  show ?thesis using a b c e by blast
qed

text \<open>The three cases of C4 on an absent record, on a record in serialized form and
  on a stored record.\<close>

theorem serialize_doc_cases_witness:
  "serialize_doc sample None = Inr None \<and>
   serialize_doc sample (Some [(''id'', VStr ''a1''), (''name'', VStr ''Ann'')]) = Inl (KeyError ''_id'') \<and>
   (\<exists>d'. serialize_doc sample
            (Some [(''_id'', VObjectId ''0123456789abcdef01234567''), (''name'', VStr ''Ann'')])
          = Inr (Some d') \<and> map_of d' ''name'' = Some (VStr ''Ann'') \<and>
          map_of d' ''id'' = Some (VStr ''0123456789abcdef01234567''))"
proof -
  let ?a = "[(''id'', VStr ''a1''), (''name'', VStr ''Ann'')]"
  let ?v = "VObjectId ''0123456789abcdef01234567''"
  let ?b = "[(''_id'', ?v), (''name'', VStr ''Ann'')]"
  have ha: "?a \<noteq> [] \<and> map_of ?a ''_id'' = None"
    by simp
  have hb: "map_of ?b ''_id'' = Some ?v \<and> list_all (\<lambda>kv. isoformat (snd kv) = None) ?b"
    by simp
  have 1: "serialize_doc sample None = Inr None"
    using serialize_doc_cases [of sample ?a ?v] by blast
  have 2: "serialize_doc sample (Some ?a) = Inl (KeyError ''_id'')"
    using serialize_doc_cases [of sample ?a ?v] ha by blast
  obtain d' where d: "serialize_doc sample (Some ?b) = Inr (Some d')"
      "map_of d' ''id'' = Some (VStr (str_of sample ?v))"
      "\<forall>k. k \<noteq> ''_id'' \<and> k \<noteq> ''id'' \<longrightarrow> map_of d' k = map_of ?b k"
    using serialize_doc_cases [of sample ?b ?v] hb by blast
  have "map_of d' ''name'' = map_of ?b ''name''"
    using d(3) by simp
  then have 3: "map_of d' ''name'' = Some (VStr ''Ann'')"
    by simp
  have 4: "map_of d' ''id'' = Some (VStr ''0123456789abcdef01234567'')"
    using d(2) by (simp add: sample_def)
  show ?thesis using 1 2 d(1) 3 4 by blast
qed

text \<open>Claim C4 as stated fails: a record in serialized form (with \<^verbatim>\<open>id\<close>, without
  \<^verbatim>\<open>_id\<close>, without temporal values) is not returned unchanged.\<close>

theorem serialize_doc_not_noop:
  "serialize_doc sample (Some [(''id'', VStr ''a1''), (''name'', VStr ''Ann'')])
     \<noteq> Inr (Some [(''id'', VStr ''a1''), (''name'', VStr ''Ann'')])"
  by (simp add: serialize_doc_def)

section \<open>Gig creation: proofs\<close>

lemma find_one_fst:
  "fst (find_one coll oid s) = find (\<lambda>d. map_of d ''_id'' = Some (VObjectId oid)) (collections s coll)"
  by (simp add: find_one_def)

lemma find_one_snd: "snd (find_one coll oid s) = s\<lparr>calls := calls s @ [FindOne coll oid]\<rparr>"
  by (simp add: find_one_def)

lemma find_one_found:
  assumes "fst (find_one coll oid s) = Some d"
  shows "d \<noteq> []" and "map_of d ''_id'' = Some (VObjectId oid)" and "d \<in> set (collections s coll)"
proof -
  from assms have "find (\<lambda>d. map_of d ''_id'' = Some (VObjectId oid)) (collections s coll) = Some d"
    by (simp add: find_one_fst)
  then obtain n where "map_of d ''_id'' = Some (VObjectId oid)" and "n < length (collections s coll)"
      and "collections s coll ! n = d"
    by (auto simp: find_Some_iff)
  then show "map_of d ''_id'' = Some (VObjectId oid)" and "d \<in> set (collections s coll)"
    by auto
  then show "d \<noteq> []" by auto
qed

lemma create_gig_invalid:
  "\<not> is_valid E (creator_id g) \<Longrightarrow>
   create_gig E g i s = (Inl (HTTPException 404 ''Creator not found''), s)"
  by (simp add: create_gig_def)

lemma create_gig_absent:
  "is_valid E (creator_id g) \<Longrightarrow> fst (find_one ''user'' (ObjectId E (creator_id g)) s) = None \<Longrightarrow>
   create_gig E g i s =
     (Inl (HTTPException 404 ''Creator not found''),
      s\<lparr>calls := calls s @ [FindOne ''user'' (ObjectId E (creator_id g))]\<rparr>)"
  by (simp add: create_gig_def find_one_def)

lemma create_gig_found:
  assumes "is_valid E (creator_id g)"
    and "fst (find_one ''user'' (ObjectId E (creator_id g)) s) = Some u"
  shows "create_gig E g i s =
     (Inr i,
      s\<lparr>collections := (collections s)(''gig'' := collections s ''gig'' @
            [(''_id'', VObjectId i) # dump_Gig (g\<lparr>creator_name := dict_get u ''name''\<rparr>)]),
        calls := calls s @ [FindOne ''user'' (ObjectId E (creator_id g)),
                            InsertOne ''gig'' (dump_Gig (g\<lparr>creator_name := dict_get u ''name''\<rparr>))]\<rparr>)"
proof -
  have "u \<noteq> []" using assms(2) by (rule find_one_found)
  moreover have "find_one ''user'' (ObjectId E (creator_id g)) s =
      (Some u, s\<lparr>calls := calls s @ [FindOne ''user'' (ObjectId E (creator_id g))]\<rparr>)"
    using assms(2) find_one_snd [of "''user''" "ObjectId E (creator_id g)" s]
    by (metis prod.collapse)
  ultimately show ?thesis
    using assms(1) by (simp add: create_gig_def create_document_def)
qed

text \<open>
  Claim C1. When the creator's identifier is not valid, or the point read of the user
  collection finds nothing, gig creation answers 404 with the detail
  \<^verbatim>\<open>Creator not found\<close>, every collection is as before, and the calls made to the store
  contain no write.
\<close>

theorem create_gig_creator_not_found:
  assumes "\<not> is_valid E (creator_id g) \<or>
           fst (find_one ''user'' (ObjectId E (creator_id g)) s) = None"
  shows "fst (create_gig E g i s) = Inl (HTTPException 404 ''Creator not found'') \<and>
         collections (snd (create_gig E g i s)) = collections s \<and>
         (\<exists>cs. calls (snd (create_gig E g i s)) = calls s @ cs \<and> \<not> list_ex writes cs)"
proof (cases "is_valid E (creator_id g)")
  case False
  then show ?thesis by (simp add: create_gig_invalid)
next
  case True
  with assms have "fst (find_one ''user'' (ObjectId E (creator_id g)) s) = None" by simp
  with True show ?thesis by (simp add: create_gig_absent)
qed

text \<open>C1 on an identifier that is not valid and on a valid one that no user has.\<close>

theorem create_gig_creator_not_found_witness:
  "fst (create_gig sample
          \<lparr>title = ''Logo'', description = ''design'', category = ''design'', price = 50,
           creator_id = ''nobody'', creator_name = VNull\<rparr> ''ffffffffffffffffffffffff'' demo_db)
     = Inl (HTTPException 404 ''Creator not found'') \<and>
   collections (snd (create_gig sample
          \<lparr>title = ''Logo'', description = ''design'', category = ''design'', price = 50,
           creator_id = ''nobody'', creator_name = VNull\<rparr> ''ffffffffffffffffffffffff'' demo_db))
     ''gig'' = [logo] \<and>
   fst (create_gig sample
          \<lparr>title = ''Logo'', description = ''design'', category = ''design'', price = 50,
           creator_id = ''0123456789abcdef0123456f'', creator_name = VNull\<rparr>
          ''ffffffffffffffffffffffff'' demo_db)
     = Inl (HTTPException 404 ''Creator not found'')"
proof -
  let ?g = "\<lparr>title = ''Logo'', description = ''design'', category = ''design'', price = 50,
           creator_id = ''nobody'', creator_name = VNull\<rparr>"
  let ?h = "\<lparr>title = ''Logo'', description = ''design'', category = ''design'', price = 50,
           creator_id = ''0123456789abcdef0123456f'', creator_name = VNull\<rparr>"
  have a: "\<not> is_valid sample (creator_id ?g)"
    by (simp add: sample_def)
  have b: "fst (find_one ''user'' (ObjectId sample (creator_id ?h)) demo_db) = None"
    by (simp add: find_one_def demo_db_def ann_def sample_def lower_def)
  have 1: "fst (create_gig sample ?g ''ffffffffffffffffffffffff'' demo_db)
             = Inl (HTTPException 404 ''Creator not found'')"
    and 2: "collections (snd (create_gig sample ?g ''ffffffffffffffffffffffff'' demo_db))
             = collections demo_db"
    using create_gig_creator_not_found [of sample ?g demo_db "''ffffffffffffffffffffffff''"] a
    by blast+
  have 3: "fst (create_gig sample ?h ''ffffffffffffffffffffffff'' demo_db)
             = Inl (HTTPException 404 ''Creator not found'')"
    using create_gig_creator_not_found [of sample ?h demo_db "''ffffffffffffffffffffffff''"] b
    by blast
  have "collections demo_db ''gig'' = [logo]"
    by (simp add: demo_db_def)
  with 1 2 3 show ?thesis by simp
qed

section \<open>Proposal creation: proofs\<close>

lemma create_proposal_gig_invalid:
  "\<not> is_valid E (gig_id p) \<Longrightarrow>
   create_proposal E p i s = (Inl (HTTPException 404 ''Gig not found''), s)"
  by (simp add: create_proposal_def)

lemma create_proposal_gig_absent:
  "is_valid E (gig_id p) \<Longrightarrow> fst (find_one ''gig'' (ObjectId E (gig_id p)) s) = None \<Longrightarrow>
   create_proposal E p i s =
     (Inl (HTTPException 404 ''Gig not found''),
      s\<lparr>calls := calls s @ [FindOne ''gig'' (ObjectId E (gig_id p))]\<rparr>)"
  by (simp add: create_proposal_def find_one_def)

text \<open>
  Claim C2. When the gig cannot be resolved, proposal creation answers 404 with the
  detail \<^verbatim>\<open>Gig not found\<close> whatever the client identifier is, the collections are as
  before, and the calls made to the store contain no read of the user collection and no
  write. The detail \<^verbatim>\<open>Client not found\<close> is only ever answered after the gig was found.
\<close>

theorem create_proposal_gig_first:
  "(\<not> is_valid E (gig_id p) \<or> fst (find_one ''gig'' (ObjectId E (gig_id p)) s) = None \<longrightarrow>
      fst (create_proposal E p i s) = Inl (HTTPException 404 ''Gig not found'') \<and>
      collections (snd (create_proposal E p i s)) = collections s \<and>
      (\<exists>cs. calls (snd (create_proposal E p i s)) = calls s @ cs \<and>
            \<not> list_ex (reads ''user'') cs \<and> \<not> list_ex writes cs)) \<and>
   (fst (create_proposal E p i s) = Inl (HTTPException 404 ''Client not found'') \<longrightarrow>
      is_valid E (gig_id p) \<and> fst (find_one ''gig'' (ObjectId E (gig_id p)) s) \<noteq> None)"
proof -
  have a: "fst (create_proposal E p i s) = Inl (HTTPException 404 ''Gig not found'') \<and>
      collections (snd (create_proposal E p i s)) = collections s \<and>
      (\<exists>cs. calls (snd (create_proposal E p i s)) = calls s @ cs \<and>
            \<not> list_ex (reads ''user'') cs \<and> \<not> list_ex writes cs)"
    if h: "\<not> is_valid E (gig_id p) \<or> fst (find_one ''gig'' (ObjectId E (gig_id p)) s) = None"
  proof (cases "is_valid E (gig_id p)")
    case False
    then show ?thesis by (simp add: create_proposal_gig_invalid)
  next
    case True
    with h have "fst (find_one ''gig'' (ObjectId E (gig_id p)) s) = None" by simp
    with True show ?thesis by (simp add: create_proposal_gig_absent)
  qed
  have b: "is_valid E (gig_id p) \<and> fst (find_one ''gig'' (ObjectId E (gig_id p)) s) \<noteq> None"
    if c: "fst (create_proposal E p i s) = Inl (HTTPException 404 ''Client not found'')"
  proof (rule ccontr)
    assume "\<not> (is_valid E (gig_id p) \<and> fst (find_one ''gig'' (ObjectId E (gig_id p)) s) \<noteq> None)"
    then have "\<not> is_valid E (gig_id p) \<or> fst (find_one ''gig'' (ObjectId E (gig_id p)) s) = None"
      by blast
    then have "fst (create_proposal E p i s) = Inl (HTTPException 404 ''Gig not found'')"
      using a by blast
    with c show False by simp
  qed
  show ?thesis using a b by blast
qed

text \<open>C2 with both identifiers unresolvable, and with a gig that exists and a client
  that does not.\<close>

theorem create_proposal_gig_first_witness:
  "fst (create_proposal sample
          \<lparr>gig_id = ''no gig'', client_id = ''no client'', message = ''hi'',
           offered_price = None, status = ''pending''\<rparr> ''ffffffffffffffffffffffff'' demo_db)
     = Inl (HTTPException 404 ''Gig not found'') \<and>
   calls (snd (create_proposal sample
          \<lparr>gig_id = ''no gig'', client_id = ''no client'', message = ''hi'',
           offered_price = None, status = ''pending''\<rparr> ''ffffffffffffffffffffffff'' demo_db))
     = [] \<and>
   fst (create_proposal sample
          \<lparr>gig_id = ''89abcdef0123456789abcdef'', client_id = ''no client'', message = ''hi'',
           offered_price = None, status = ''pending''\<rparr> ''ffffffffffffffffffffffff'' demo_db)
     = Inl (HTTPException 404 ''Client not found'') \<and>
   is_valid sample ''89abcdef0123456789abcdef''"
proof -
  let ?p = "\<lparr>gig_id = ''no gig'', client_id = ''no client'', message = ''hi'',
           offered_price = None, status = ''pending''\<rparr>"
  let ?q = "\<lparr>gig_id = ''89abcdef0123456789abcdef'', client_id = ''no client'', message = ''hi'',
           offered_price = None, status = ''pending''\<rparr>"
  let ?i = "''ffffffffffffffffffffffff''"
  have a: "\<not> is_valid sample (gig_id ?p)"
    by (simp add: sample_def)
  have 1: "fst (create_proposal sample ?p ?i demo_db) = Inl (HTTPException 404 ''Gig not found'')"
    using create_proposal_gig_first [of sample ?p demo_db ?i] a by blast
  have 2: "calls (snd (create_proposal sample ?p ?i demo_db)) = []"
    using a by (simp add: create_proposal_gig_invalid demo_db_def)
  have v: "is_valid sample ''89abcdef0123456789abcdef''"
    by (simp add: sample_def hex_digit_def)
  have f: "fst (find_one ''gig'' (ObjectId sample ''89abcdef0123456789abcdef'') demo_db) = Some logo"
    by (simp add: find_one_def demo_db_def logo_def sample_def lower_def)
  have 3: "fst (create_proposal sample ?q ?i demo_db) = Inl (HTTPException 404 ''Client not found'')"
    using v f by (simp add: create_proposal_def find_one_def sample_def logo_def split_beta)
  have 4: "is_valid sample (gig_id ?q)"
    using create_proposal_gig_first [of sample ?q demo_db ?i] 3 by blast
  show ?thesis using 1 2 3 4 by simp
qed

section \<open>The denormalised creator name: proofs\<close>

text \<open>
  Claim C3. When the creator's identifier is valid and the point read finds the user
  \<open>u\<close>, creation succeeds and appends one gig whose \<^verbatim>\<open>creator_name\<close> is what \<open>u\<close>
  holds under \<^verbatim>\<open>name\<close>, for every \<open>creator_name\<close> the caller supplied (\<open>x\<close>).
\<close>

theorem create_gig_creator_name:
  assumes "is_valid E (creator_id g)"
    and "fst (find_one ''user'' (ObjectId E (creator_id g)) s) = Some u"
  shows "\<exists>d. fst (create_gig E (g\<lparr>creator_name := x\<rparr>) i s) = Inr i \<and>
             collections (snd (create_gig E (g\<lparr>creator_name := x\<rparr>) i s)) ''gig''
               = collections s ''gig'' @ [d] \<and>
             map_of d ''creator_name'' = Some (dict_get u ''name'') \<and>
             (\<forall>n. map_of u ''name'' = Some (VStr n) \<longrightarrow>
                  map_of d ''creator_name'' = Some (VStr n))"
proof -
  let ?g = "g\<lparr>creator_name := x\<rparr>"
  let ?d = "(''_id'', VObjectId i) # dump_Gig (?g\<lparr>creator_name := dict_get u ''name''\<rparr>)"
  have v: "is_valid E (creator_id ?g)" using assms(1) by simp
  have f: "fst (find_one ''user'' (ObjectId E (creator_id ?g)) s) = Some u"
    using assms(2) by simp
  note r = create_gig_found [OF v f, of i]
  have 1: "fst (create_gig E ?g i s) = Inr i"
    by (simp add: r)
  have 2: "collections (snd (create_gig E ?g i s)) ''gig'' = collections s ''gig'' @ [?d]"
    by (simp add: r)
  have 3: "map_of ?d ''creator_name'' = Some (dict_get u ''name'')"
    by (simp add: dump_Gig_def)
  have 4: "\<forall>n. map_of u ''name'' = Some (VStr n) \<longrightarrow> map_of ?d ''creator_name'' = Some (VStr n)"
    by (simp add: dump_Gig_def dict_get_def)
  show ?thesis using 1 2 3 4 by blast
qed

text \<open>C3 on a caller who names Mallory as creator of a gig of Ann's.\<close>

theorem create_gig_creator_name_witness:
  "\<exists>d. collections (snd (create_gig sample
          \<lparr>title = ''Logo 2'', description = ''design'', category = ''design'', price = 50,
           creator_id = ''0123456789ABCDEF01234567'', creator_name = VStr ''Mallory''\<rparr>
          ''ffffffffffffffffffffffff'' demo_db)) ''gig'' = [logo, d] \<and>
       map_of d ''creator_name'' = Some (VStr ''Ann'')"
proof -
  let ?g = "\<lparr>title = ''Logo 2'', description = ''design'', category = ''design'', price = 50,
           creator_id = ''0123456789ABCDEF01234567'', creator_name = VNull\<rparr>"
  have v: "is_valid sample (creator_id ?g)"
    by (simp add: sample_def hex_digit_def)
  have f: "fst (find_one ''user'' (ObjectId sample (creator_id ?g)) demo_db) = Some ann"
    by (simp add: find_one_def demo_db_def ann_def sample_def lower_def)
  have n: "map_of ann ''name'' = Some (VStr ''Ann'')"
    by (simp add: ann_def)
  have c: "collections demo_db ''gig'' = [logo]"
    by (simp add: demo_db_def)
  from create_gig_creator_name [OF v f, of "VStr ''Mallory''" "''ffffffffffffffffffffffff''"] n c
  show ?thesis by auto
qed

section \<open>The fields of a persisted gig: proofs\<close>

lemma required_Some: "required x = Some v \<longleftrightarrow> x = Given v"
  by (cases x) simp_all

lemma with_default_Some: "with_default d x = Some v \<longleftrightarrow> x = Given v \<or> (x = Absent \<and> v = d)"
  by (cases x) auto

lemma checked_Some: "checked P x = Some v \<longleftrightarrow> x = Some v \<and> P v"
  by (cases x) auto

lemma validate_Gig_Inr:
  "validate_Gig b = Inr g \<Longrightarrow>
     title_in b = Given (title g) \<and> description_in b = Given (description g) \<and>
     category_in b = Given (category g) \<and> price_in b = Given (price g) \<and>
     creator_id_in b = Given (creator_id g) \<and> 0 \<le> price g"
  by (auto simp: validate_Gig_def required_Some checked_Some split: option.splits)

lemma validate_Proposal_Inr:
  "validate_Proposal b = Inr p \<Longrightarrow>
     gig_id_in b = Given (gig_id p) \<and> client_id_in b = Given (client_id p) \<and>
     message_in b = Given (message p) \<and> status_pattern (status p) \<and>
     (status_in b = Given (status p) \<or> status_in b = Absent \<and> status p = ''pending'')"
  by (auto simp: validate_Proposal_def required_Some checked_Some with_default_Some split: option.splits)

lemma create_gig_Inr:
  assumes "fst (create_gig E g i s) = Inr r"
  shows "is_valid E (creator_id g) \<and> (\<exists>u. fst (find_one ''user'' (ObjectId E (creator_id g)) s) = Some u)"
proof (cases "is_valid E (creator_id g)")
  case False
  then have "fst (create_gig E g i s) = Inl (HTTPException 404 ''Creator not found'')"
    by (simp add: create_gig_invalid)
  with assms show ?thesis by simp
next
  case True
  show ?thesis
  proof (cases "fst (find_one ''user'' (ObjectId E (creator_id g)) s)")
    case None
    with True have "fst (create_gig E g i s) = Inl (HTTPException 404 ''Creator not found'')"
      by (simp add: create_gig_absent)
    with assms show ?thesis by simp
  next
    case (Some u)
    with True show ?thesis by simp
  qed
qed

text \<open>
  Claim C10. When the endpoint for gig creation succeeds, the body passed validation
  as the gig \<open>g\<close>, whose title, description, category, price and creator identifier
  are the values of the body; the creator \<open>u\<close> was found; only the gig collection
  changed, by one appended document, which is the dump of \<open>g\<close> with \<open>creator_name\<close>
  alone rewritten; and its other five fields are those of \<open>g\<close>.
\<close>

theorem post_gigs_fields:
  assumes "fst (post_gigs E b i s) = Inr r"
  shows "\<exists>g u d. validate_Gig b = Inr g \<and>
           fst (find_one ''user'' (ObjectId E (creator_id g)) s) = Some u \<and>
           title_in b = Given (title g) \<and> description_in b = Given (description g) \<and>
           category_in b = Given (category g) \<and> price_in b = Given (price g) \<and>
           creator_id_in b = Given (creator_id g) \<and>
           collections (snd (post_gigs E b i s))
             = (collections s)(''gig'' := collections s ''gig'' @ [d]) \<and>
           d = (''_id'', VObjectId i) # dump_Gig (g\<lparr>creator_name := dict_get u ''name''\<rparr>) \<and>
           map_of d ''title'' = Some (VStr (title g)) \<and>
           map_of d ''description'' = Some (VStr (description g)) \<and>
           map_of d ''category'' = Some (VStr (category g)) \<and>
           map_of d ''price'' = Some (VNum (price g)) \<and>
           map_of d ''creator_id'' = Some (VStr (creator_id g))"
proof -
  obtain g where g: "validate_Gig b = Inr g"
    using assms by (cases "validate_Gig b") (simp_all add: post_gigs_def)
  then have p: "post_gigs E b i s = create_gig E g i s"
    by (simp add: post_gigs_def)
  with assms have "fst (create_gig E g i s) = Inr r" by simp
  then obtain u where v: "is_valid E (creator_id g)"
      and u: "fst (find_one ''user'' (ObjectId E (creator_id g)) s) = Some u"
    using create_gig_Inr by blast
  let ?d = "(''_id'', VObjectId i) # dump_Gig (g\<lparr>creator_name := dict_get u ''name''\<rparr>)"
  have c: "collections (snd (post_gigs E b i s))
             = (collections s)(''gig'' := collections s ''gig'' @ [?d])"
    by (simp add: p create_gig_found [OF v u])
  have f: "map_of ?d ''title'' = Some (VStr (title g))"
      "map_of ?d ''description'' = Some (VStr (description g))"
      "map_of ?d ''category'' = Some (VStr (category g))"
      "map_of ?d ''price'' = Some (VNum (price g))"
      "map_of ?d ''creator_id'' = Some (VStr (creator_id g))"
    by (simp_all add: dump_Gig_def)
  from validate_Gig_Inr [OF g] g u c f show ?thesis by blast
qed

text \<open>C10 on the second gig of Ann's.\<close>

theorem post_gigs_fields_witness:
  "\<exists>d. collections (snd (post_gigs sample logo2_body ''ffffffffffffffffffffffff'' demo_db)) ''gig''
          = [logo, d] \<and>
       map_of d ''title'' = Some (VStr ''Logo 2'') \<and>
       map_of d ''price'' = Some (VNum 50) \<and>
       map_of d ''creator_id'' = Some (VStr ''0123456789abcdef01234567'')"
proof -
  let ?i = "''ffffffffffffffffffffffff''"
  have g: "validate_Gig logo2_body =
      Inr \<lparr>title = ''Logo 2'', description = ''design'', category = ''design'', price = 50,
           creator_id = ''0123456789abcdef01234567'', creator_name = VStr ''Mallory''\<rparr>"
    by (simp add: validate_Gig_def logo2_body_def)
  have v: "is_valid sample ''0123456789abcdef01234567''"
    by (simp add: sample_def hex_digit_def)
  have f: "fst (find_one ''user'' (ObjectId sample ''0123456789abcdef01234567'') demo_db) = Some ann"
    by (simp add: find_one_def demo_db_def ann_def sample_def lower_def)
  have h: "fst (post_gigs sample logo2_body ?i demo_db) = Inr ?i"
    using v f by (simp add: post_gigs_def g create_gig_found)
  have c: "collections demo_db ''gig'' = [logo]"
    by (simp add: demo_db_def)
  from post_gigs_fields [OF h] obtain g' d where
      "validate_Gig logo2_body = Inr g'"
      "collections (snd (post_gigs sample logo2_body ?i demo_db))
             = (collections demo_db)(''gig'' := collections demo_db ''gig'' @ [d])"
      "map_of d ''title'' = Some (VStr (title g'))"
      "map_of d ''price'' = Some (VNum (price g'))"
      "map_of d ''creator_id'' = Some (VStr (creator_id g'))"
    by blast
  with g c show ?thesis by auto
qed

section \<open>Validation of a user: proofs\<close>

lemma required_None: "required x = None \<longleftrightarrow> x = Absent \<or> x = Invalid"
  by (cases x) simp_all

lemma with_default_None: "with_default d x = None \<longleftrightarrow> x = Invalid"
  by (cases x) simp_all

lemma validate_User_Inl:
  "validate_User E b = Inl e \<longleftrightarrow>
     e = RequestValidationError \<and>
     (required (name_in b) = None \<or>
      Option.bind (required (email_in b)) (EmailStr E) = None \<or>
      checked role_pattern (required (role_in b)) = None \<or>
      with_default None (bio_in b) = None \<or>
      with_default (Some []) (skills_in b) = None \<or>
      with_default None (avatar_url_in b) = None \<or>
      with_default True (is_active_in b) = None)"
  by (auto simp: validate_User_def split: option.splits)

lemma email_None:
  "Option.bind (required x) f = None \<longleftrightarrow>
     x = Absent \<or> x = Invalid \<or> (\<exists>a. x = Given a \<and> f a = None)"
  by (cases x) auto

lemma role_None:
  "checked role_pattern (required x) = None \<longleftrightarrow> (x \<noteq> Given ''creator'' \<and> x \<noteq> Given ''client'')"
  by (cases x) (auto simp: role_pattern_def)

text \<open>
  Claim C5, as the code has it. Validation of a user fails, with the validation error,
  exactly when \<open>name\<close> is missing or not a string, when \<open>email\<close> is missing, not a
  string or not accepted as an address, when \<open>role\<close> is not exactly \<^verbatim>\<open>creator\<close> or
  \<^verbatim>\<open>client\<close>, or when one of the optional fields is not of its type. The name is not
  examined further: an empty name does not fail.
\<close>

theorem validate_User_rejects:
  "validate_User E b = Inl RequestValidationError \<longleftrightarrow>
     (name_in b = Absent \<or> name_in b = Invalid) \<or>
     (email_in b = Absent \<or> email_in b = Invalid \<or>
      (\<exists>a. email_in b = Given a \<and> EmailStr E a = None)) \<or>
     (role_in b \<noteq> Given ''creator'' \<and> role_in b \<noteq> Given ''client'') \<or>
     bio_in b = Invalid \<or> skills_in b = Invalid \<or> avatar_url_in b = Invalid \<or>
     is_active_in b = Invalid"
  unfolding validate_User_Inl required_None with_default_None email_None role_None
  by blast

lemma sample_email_ann: "EmailStr sample ''ann@x.com'' = Some ''ann@x.com''"
  by (simp add: sample_def sample_email_def atom_char_def)

text \<open>C5 on a body with an empty name, which passes, and on the same body with the role
  \<^verbatim>\<open>admin\<close> and with an empty address, which fail.\<close>

theorem validate_User_rejects_witness:
  "validate_User sample anonymous_body \<noteq> Inl RequestValidationError \<and>
   validate_User sample (anonymous_body\<lparr>role_in := Given ''admin''\<rparr>) = Inl RequestValidationError \<and>
   validate_User sample (anonymous_body\<lparr>email_in := Given []\<rparr>) = Inl RequestValidationError"
proof -
  have 1: "validate_User sample anonymous_body \<noteq> Inl RequestValidationError"
    using validate_User_rejects [of sample anonymous_body] sample_email_ann
    by (simp add: anonymous_body_def)
  have 2: "validate_User sample (anonymous_body\<lparr>role_in := Given ''admin''\<rparr>)
             = Inl RequestValidationError"
    using validate_User_rejects [of sample "anonymous_body\<lparr>role_in := Given ''admin''\<rparr>"]
    by (simp add: anonymous_body_def)
  have "EmailStr sample [] = None"
    by (simp add: sample_def sample_email_def)
  then have 3: "validate_User sample (anonymous_body\<lparr>email_in := Given []\<rparr>)
             = Inl RequestValidationError"
    using validate_User_rejects [of sample "anonymous_body\<lparr>email_in := Given []\<rparr>"]
    by (simp add: anonymous_body_def)
  show ?thesis using 1 2 3 by blast
qed

text \<open>Claim C5 as stated fails: a body whose name is the empty string is accepted.\<close>

theorem validate_User_empty_name:
  "validate_User sample anonymous_body =
     Inr \<lparr>name = [], email = ''ann@x.com'', role = ''creator'', bio = None,
          skills = Some [], avatar_url = None, is_active = True\<rparr>"
  by (simp add: validate_User_def anonymous_body_def sample_email_ann role_pattern_def)

section \<open>The status of a stored proposal: proofs\<close>

lemma get_documents_snd:
  "snd (get_documents E coll filt limit s) = s\<lparr>calls := calls s @ [Find coll filt limit]\<rparr>"
  by (simp add: get_documents_def)

lemma respond_snd: "snd (respond E r) = snd r"
  by (cases "fst r") (simp_all add: respond_def)

lemma list_users_collections: "collections (snd (list_users E r s)) = collections s"
  by (simp add: list_users_def Let_def respond_snd get_documents_snd)

lemma list_gigs_collections: "collections (snd (list_gigs E c q s)) = collections s"
  by (simp add: list_gigs_def Let_def respond_snd get_documents_snd)

lemma list_proposals_collections: "collections (snd (list_proposals E g c s)) = collections s"
  by (simp add: list_proposals_def Let_def respond_snd get_documents_snd)

lemma post_users_proposals:
  "collections (snd (post_users E b i s)) ''proposal'' = collections s ''proposal''"
  by (cases "validate_User E b") (simp_all add: post_users_def create_user_def create_document_def)

lemma create_gig_proposals:
  "collections (snd (create_gig E g i s)) ''proposal'' = collections s ''proposal''"
  by (auto simp: create_gig_def find_one_def create_document_def split: option.splits)

lemma post_gigs_proposals:
  "collections (snd (post_gigs E b i s)) ''proposal'' = collections s ''proposal''"
  by (cases "validate_Gig b") (simp_all add: post_gigs_def create_gig_proposals)

lemma create_proposal_proposals:
  "collections (snd (create_proposal E p i s)) ''proposal'' = collections s ''proposal'' \<or>
   collections (snd (create_proposal E p i s)) ''proposal''
     = collections s ''proposal'' @ [(''_id'', VObjectId i) # dump_Proposal p]"
  by (auto simp: create_proposal_def find_one_def create_document_def)

lemma status_ok_dump:
  "status_pattern (status p) \<Longrightarrow> status_ok ((''_id'', v) # dump_Proposal p)"
  by (simp add: status_ok_def dump_Proposal_def)

lemma post_proposals_status:
  assumes "list_all status_ok (collections s ''proposal'')"
  shows "list_all status_ok (collections (snd (post_proposals E b i s)) ''proposal'')"
proof (cases "validate_Proposal b")
  case (Inl e)
  then show ?thesis using assms by (simp add: post_proposals_def)
next
  case (Inr p)
  then have "status_pattern (status p)"
    using validate_Proposal_Inr by blast
  then have "status_ok ((''_id'', VObjectId i) # dump_Proposal p)"
    by (rule status_ok_dump)
  with assms create_proposal_proposals [of E p i s] Inr show ?thesis
    by (auto simp: post_proposals_def)
qed

lemma handle_status:
  "list_all status_ok (collections s ''proposal'') \<Longrightarrow>
   list_all status_ok (collections (handle E s r) ''proposal'')"
  by (cases r)
    (simp_all add: post_users_proposals post_gigs_proposals post_proposals_status
       list_users_collections list_gigs_collections list_proposals_collections)

lemma foldl_handle_status:
  "list_all status_ok (collections s ''proposal'') \<Longrightarrow>
   list_all status_ok (collections (foldl (handle E) s rs) ''proposal'')"
  by (induction rs arbitrary: s) (simp_all add: handle_status)

lemma bad_status_rejected:
  "status_in b = Given st \<Longrightarrow> \<not> status_pattern st \<Longrightarrow>
   validate_Proposal b = Inl RequestValidationError"
  by (auto simp: validate_Proposal_def split: option.splits)

text \<open>
  Claim C8. After any sequence of requests to the API on a store that started empty,
  every stored proposal has a \<open>status\<close> that is one of the three enumerated values.
  A body whose status is a string outside them is answered with the validation error
  and the state as it was, so without a lookup or a write. When the body has no status,
  the validated proposal has the status \<^verbatim>\<open>pending\<close>.
\<close>

theorem proposal_status_enumerated:
  "list_all status_ok (collections (run E rs) ''proposal'') \<and>
   (\<forall>st. status_in b = Given st \<and> \<not> status_pattern st \<longrightarrow>
      post_proposals E b i s = (Inl RequestValidationError, s)) \<and>
   (status_in b = Absent \<longrightarrow> (\<forall>p. validate_Proposal b = Inr p \<longrightarrow> status p = ''pending''))"
proof -
  have "list_all status_ok (collections empty_db ''proposal'')"
    by (simp add: empty_db_def)
  then have 1: "list_all status_ok (collections (run E rs) ''proposal'')"
    unfolding run_def by (rule foldl_handle_status)
  have 2: "\<forall>st. status_in b = Given st \<and> \<not> status_pattern st \<longrightarrow>
      post_proposals E b i s = (Inl RequestValidationError, s)"
    by (simp add: post_proposals_def bad_status_rejected)
  have 3: "status_in b = Absent \<longrightarrow> (\<forall>p. validate_Proposal b = Inr p \<longrightarrow> status p = ''pending'')"
    using validate_Proposal_Inr by fastforce
  show ?thesis using 1 2 3 by blast
qed

text \<open>The store after Ann, her gig and a proposal without a status were created.\<close>

lemma run_example:
  "collections (run sample [PostUser ann_body ''0123456789abcdef01234567'',
                            PostGig logo_body ''89abcdef0123456789abcdef'',
                            PostProposal hi_body ''ffffffffffffffffffffffff'']) ''proposal''
   = [[(''_id'', VObjectId ''ffffffffffffffffffffffff''),
       (''gig_id'', VStr ''89abcdef0123456789abcdef''),
       (''client_id'', VStr ''0123456789abcdef01234567''),
       (''message'', VStr ''hi''), (''offered_price'', VNull), (''status'', VStr ''pending'')]]"
  by (simp add: run_def empty_db_def post_users_def post_gigs_def post_proposals_def
      validate_User_def validate_Gig_def validate_Proposal_def ann_body_def logo_body_def hi_body_def
      sample_def sample_email_def atom_char_def role_pattern_def status_pattern_def hex_digit_def
      create_user_def create_gig_def create_proposal_def create_document_def find_one_def
      dump_User_def dump_Gig_def dump_Proposal_def opt_str_def dict_get_def lower_def)

text \<open>C8 on that sequence of requests, and on a proposal with the status
  \<^verbatim>\<open>done\<close>.\<close>

theorem proposal_status_enumerated_witness:
  "collections (run sample [PostUser ann_body ''0123456789abcdef01234567'',
                            PostGig logo_body ''89abcdef0123456789abcdef'',
                            PostProposal hi_body ''ffffffffffffffffffffffff'']) ''proposal'' \<noteq> [] \<and>
   list_all status_ok
     (collections (run sample [PostUser ann_body ''0123456789abcdef01234567'',
                               PostGig logo_body ''89abcdef0123456789abcdef'',
                               PostProposal hi_body ''ffffffffffffffffffffffff'']) ''proposal'') \<and>
   post_proposals sample (hi_body\<lparr>status_in := Given ''done''\<rparr>) ''ffffffffffffffffffffffff'' demo_db
     = (Inl RequestValidationError, demo_db)"
proof -
  let ?rs = "[PostUser ann_body ''0123456789abcdef01234567'',
              PostGig logo_body ''89abcdef0123456789abcdef'',
              PostProposal hi_body ''ffffffffffffffffffffffff'']"
  let ?b = "hi_body\<lparr>status_in := Given ''done''\<rparr>"
  note t = proposal_status_enumerated [of sample ?rs ?b "''ffffffffffffffffffffffff''" demo_db]
  have 1: "collections (run sample ?rs) ''proposal'' \<noteq> []"
    by (simp add: run_example)
  have 2: "list_all status_ok (collections (run sample ?rs) ''proposal'')"
    using t by blast
  have "status_in ?b = Given ''done'' \<and> \<not> status_pattern ''done''"
    by (simp add: status_pattern_def)
  then have 3: "post_proposals sample ?b ''ffffffffffffffffffffffff'' demo_db
      = (Inl RequestValidationError, demo_db)"
    using t by blast
  show ?thesis using 1 2 3 by blast
qed

section \<open>The listing of proposals: proofs\<close>

lemma serialize_doc_has_id:
  "has_id d \<Longrightarrow> \<exists>d'. serialize_doc E (Some d) = Inr (Some d')"
  by (auto simp: has_id_def serialize_doc_def Let_def)

lemma serialize_all_has_id:
  "list_all has_id ds \<Longrightarrow>
   \<exists>out. serialize_all E ds = Inr out \<and>
         list_all2 (\<lambda>r d. serialize_doc E (Some d) = Inr r) out ds"
proof (induction ds)
  case Nil
  then show ?case by simp
next
  case (Cons d ds)
  then obtain out where o: "serialize_all E ds = Inr out"
      "list_all2 (\<lambda>r d. serialize_doc E (Some d) = Inr r) out ds"
    by auto
  from Cons.prems obtain d' where "serialize_doc E (Some d) = Inr (Some d')"
    using serialize_doc_has_id by auto
  with o show ?case by simp
qed

lemma has_id_take_filter:
  "list_all has_id ds \<Longrightarrow> list_all has_id (take n (filter P ds))"
  by (auto simp: list_all_iff dest: in_set_takeD)

lemma listing_served:
  assumes "list_all has_id ds"
  shows "\<exists>out. serialize_all E (take 100 (filter P ds)) = Inr out \<and> length out \<le> 100 \<and>
           list_all2 (\<lambda>r d. serialize_doc E (Some d) = Inr r) out (take 100 (filter P ds))"
proof -
  from assms have "list_all has_id (take 100 (filter P ds))"
    by (rule has_id_take_filter)
  then obtain out where o: "serialize_all E (take 100 (filter P ds)) = Inr out"
      "list_all2 (\<lambda>r d. serialize_doc E (Some d) = Inr r) out (take 100 (filter P ds))"
    using serialize_all_has_id by blast
  then have "length out = length (take 100 (filter P ds))"
    by (simp add: list_all2_lengthD)
  then have "length out \<le> 100" by simp
  with o show ?thesis by blast
qed

lemma list_proposals_eq:
  "fst (list_proposals E g c s) =
     serialize_all E (take 100 (filter
        (\<lambda>d. (\<forall>x. g = Some x \<and> x \<noteq> [] \<and> is_valid E x \<longrightarrow> map_of d ''gig_id'' = Some (VStr x)) \<and>
             (\<forall>y. c = Some y \<and> y \<noteq> [] \<and> is_valid E y \<longrightarrow> map_of d ''client_id'' = Some (VStr y)))
        (collections s ''proposal'')))"
  by (cases g; cases c) (auto simp: list_proposals_def respond_def get_documents_def intro!: arg_cong [where f = "\<lambda>P. serialize_all E (take 100 (filter P (collections s ''proposal'')))"])

text \<open>
  Claim C7. On a store whose proposals all have an identifier, the listing of proposals
  never fails: it answers at most 100 documents, the serializations of the first 100
  proposals, in the store's order, whose \<^verbatim>\<open>gig_id\<close> and \<^verbatim>\<open>client_id\<close> equal each
  parameter that was provided, is not empty and is a valid identifier. A parameter that
  is not a valid identifier changes nothing: the listing is the one without it.
\<close>

theorem list_proposals_drops_invalid:
  assumes "list_all has_id (collections s ''proposal'')"
  shows "(\<exists>out. fst (list_proposals E g c s) = Inr out \<and> length out \<le> 100 \<and>
            list_all2 (\<lambda>r d. serialize_doc E (Some d) = Inr r) out
              (take 100 (filter
                 (\<lambda>d. (\<forall>x. g = Some x \<and> x \<noteq> [] \<and> is_valid E x \<longrightarrow>
                            map_of d ''gig_id'' = Some (VStr x)) \<and>
                      (\<forall>y. c = Some y \<and> y \<noteq> [] \<and> is_valid E y \<longrightarrow>
                            map_of d ''client_id'' = Some (VStr y)))
                 (collections s ''proposal'')))) \<and>
         (\<forall>x. \<not> is_valid E x \<longrightarrow> list_proposals E (Some x) c s = list_proposals E None c s) \<and>
         (\<forall>y. \<not> is_valid E y \<longrightarrow> list_proposals E g (Some y) s = list_proposals E g None s)"
proof -
  have 1: "\<forall>x. \<not> is_valid E x \<longrightarrow> list_proposals E (Some x) c s = list_proposals E None c s"
    by (simp add: list_proposals_def)
  have 2: "\<forall>y. \<not> is_valid E y \<longrightarrow> list_proposals E g (Some y) s = list_proposals E g None s"
    by (simp add: list_proposals_def)
  show ?thesis
    unfolding list_proposals_eq using listing_served [OF assms] 1 2 by blast
qed

text \<open>C7 on a gig parameter that is not an identifier and Ann's identifier as the
  client.\<close>

theorem list_proposals_drops_invalid_witness:
  "(\<exists>out. fst (list_proposals sample (Some ''not an id'') (Some ''0123456789abcdef01234567'') demo_db)
            = Inr out \<and>
          list_all2 (\<lambda>r d. serialize_doc sample (Some d) = Inr r) out [hi]) \<and>
   list_proposals sample (Some ''not an id'') None demo_db = list_proposals sample None None demo_db"
proof -
  let ?g = "Some ''not an id''" and ?c = "Some ''0123456789abcdef01234567''"
  have h: "list_all has_id (collections demo_db ''proposal'')"
    by (simp add: demo_db_def hi_def has_id_def)
  have n: "\<not> is_valid sample ''not an id''"
    by (simp add: sample_def)
  have f: "take 100 (filter
                 (\<lambda>d. (\<forall>x. ?g = Some x \<and> x \<noteq> [] \<and> is_valid sample x \<longrightarrow>
                            map_of d ''gig_id'' = Some (VStr x)) \<and>
                      (\<forall>y. ?c = Some y \<and> y \<noteq> [] \<and> is_valid sample y \<longrightarrow>
                            map_of d ''client_id'' = Some (VStr y)))
                 (collections demo_db ''proposal'')) = [hi]"
    using n by (simp add: demo_db_def hi_def)
  note t = list_proposals_drops_invalid [OF h, of sample ?g ?c]
  from t f have 1: "\<exists>out. fst (list_proposals sample ?g ?c demo_db) = Inr out \<and>
          list_all2 (\<lambda>r d. serialize_doc sample (Some d) = Inr r) out [hi]"
    by auto
  from list_proposals_drops_invalid [OF h, of sample None None] n
  have 2: "list_proposals sample ?g None demo_db = list_proposals sample None None demo_db"
    by blast
  show ?thesis using 1 2 by blast
qed

section \<open>Empty query parameters: proofs\<close>

text \<open>
  Claim C9. In each listing, a parameter given as the empty string does what the absent
  parameter does: the response and the state are the same. When every parameter is
  empty, the listing of users, of gigs and of proposals is not filtered: it serializes
  the first 100 documents of its collection, and the query it sends to the store has
  the empty filter. When one parameter is empty and the other is not (\<open>x\<close>), the
  listing is filtered by the other alone: gigs by the exact category, or by the search
  \<open>m\<close> that the query compiles to; proposals by the gig alone or by the client alone.
\<close>

theorem empty_parameter_is_absent:
  "list_users E (Some []) s = list_users E None s \<and>
   list_gigs E (Some []) q s = list_gigs E None q s \<and>
   list_gigs E c (Some []) s = list_gigs E c None s \<and>
   list_proposals E (Some []) c s = list_proposals E None c s \<and>
   list_proposals E g (Some []) s = list_proposals E g None s \<and>
   fst (list_users E (Some []) s) = serialize_all E (take 100 (collections s ''user'')) \<and>
   fst (list_gigs E (Some []) (Some []) s) = serialize_all E (take 100 (collections s ''gig'')) \<and>
   fst (list_proposals E (Some []) (Some []) s)
     = serialize_all E (take 100 (collections s ''proposal'')) \<and>
   snd (list_users E (Some []) s) = s\<lparr>calls := calls s @ [Find ''user'' [] 100]\<rparr> \<and>
   snd (list_gigs E (Some []) (Some []) s) = s\<lparr>calls := calls s @ [Find ''gig'' [] 100]\<rparr> \<and>
   snd (list_proposals E (Some []) (Some []) s)
     = s\<lparr>calls := calls s @ [Find ''proposal'' [] 100]\<rparr> \<and>
   (x \<noteq> [] \<longrightarrow>
      fst (list_gigs E (Some x) (Some []) s) =
        serialize_all E (take 100 (filter (\<lambda>d. map_of d ''category'' = Some (VStr x))
                                     (collections s ''gig'')))) \<and>
   (x \<noteq> [] \<and> regex E x ''i'' = Some m \<longrightarrow>
      fst (list_gigs E (Some []) (Some x) s) =
        serialize_all E (take 100 (filter
           (\<lambda>d. search_in (Some m) (map_of d ''title'') \<or>
                search_in (Some m) (map_of d ''description'') \<or>
                search_in (Some m) (map_of d ''creator_name''))
           (collections s ''gig'')))) \<and>
   (x \<noteq> [] \<and> is_valid E x \<longrightarrow>
      fst (list_proposals E (Some x) (Some []) s) =
        serialize_all E (take 100 (filter (\<lambda>d. map_of d ''gig_id'' = Some (VStr x))
                                     (collections s ''proposal'')))) \<and>
   (x \<noteq> [] \<and> is_valid E x \<longrightarrow>
      fst (list_proposals E (Some []) (Some x) s) =
        serialize_all E (take 100 (filter (\<lambda>d. map_of d ''client_id'' = Some (VStr x))
                                     (collections s ''proposal''))))"
proof -
  have eq: "list_users E (Some []) s = list_users E None s"
      "list_gigs E (Some []) q s = list_gigs E None q s"
      "list_gigs E c (Some []) s = list_gigs E c None s"
      "list_proposals E (Some []) c s = list_proposals E None c s"
      "list_proposals E g (Some []) s = list_proposals E g None s"
    by (simp_all add: list_users_def list_gigs_def list_proposals_def)
  have all: "fst (list_users E (Some []) s) = serialize_all E (take 100 (collections s ''user''))"
      "fst (list_gigs E (Some []) (Some []) s) = serialize_all E (take 100 (collections s ''gig''))"
      "fst (list_proposals E (Some []) (Some []) s)
         = serialize_all E (take 100 (collections s ''proposal''))"
    by (simp_all add: list_users_def list_gigs_def list_proposals_def respond_def get_documents_def)
  have st: "snd (list_users E (Some []) s) = s\<lparr>calls := calls s @ [Find ''user'' [] 100]\<rparr>"
      "snd (list_gigs E (Some []) (Some []) s) = s\<lparr>calls := calls s @ [Find ''gig'' [] 100]\<rparr>"
      "snd (list_proposals E (Some []) (Some []) s)
         = s\<lparr>calls := calls s @ [Find ''proposal'' [] 100]\<rparr>"
    by (simp_all add: list_users_def list_gigs_def list_proposals_def respond_snd get_documents_snd)
  have cat: "x \<noteq> [] \<longrightarrow>
      fst (list_gigs E (Some x) (Some []) s) =
        serialize_all E (take 100 (filter (\<lambda>d. map_of d ''category'' = Some (VStr x))
                                     (collections s ''gig'')))"
    by (simp add: list_gigs_def respond_def get_documents_def)
  have pat: "x \<noteq> [] \<and> regex E x ''i'' = Some m \<longrightarrow>
      fst (list_gigs E (Some []) (Some x) s) =
        serialize_all E (take 100 (filter
           (\<lambda>d. search_in (Some m) (map_of d ''title'') \<or>
                search_in (Some m) (map_of d ''description'') \<or>
                search_in (Some m) (map_of d ''creator_name''))
           (collections s ''gig'')))"
    by (simp add: list_gigs_def respond_def get_documents_def)
  have gi: "x \<noteq> [] \<and> is_valid E x \<longrightarrow>
      fst (list_proposals E (Some x) (Some []) s) =
        serialize_all E (take 100 (filter (\<lambda>d. map_of d ''gig_id'' = Some (VStr x))
                                     (collections s ''proposal'')))"
    by (simp add: list_proposals_def respond_def get_documents_def)
  have cl: "x \<noteq> [] \<and> is_valid E x \<longrightarrow>
      fst (list_proposals E (Some []) (Some x) s) =
        serialize_all E (take 100 (filter (\<lambda>d. map_of d ''client_id'' = Some (VStr x))
                                     (collections s ''proposal'')))"
    by (simp add: list_proposals_def respond_def get_documents_def)
  show ?thesis using eq all st cat pat gi cl by blast
qed

text \<open>The serializations of the three example documents.\<close>

lemma serialize_ann:
  "serialize_all sample [ann] =
     Inr [Some [(''name'', VStr ''Ann''), (''email'', VStr ''ann@x.com''),
                (''role'', VStr ''creator''), (''bio'', VNull), (''skills'', VList []),
                (''avatar_url'', VNull), (''is_active'', VBool True),
                (''id'', VStr ''0123456789abcdef01234567'')]]"
  by (simp add: ann_def serialize_doc_def sample_def AList.delete_eq convert_item_def)

lemma serialize_logo:
  "serialize_all sample [logo] =
     Inr [Some [(''title'', VStr ''Logo''), (''description'', VStr ''design''),
                (''category'', VStr ''design''), (''price'', VNum 50),
                (''creator_id'', VStr ''0123456789abcdef01234567''),
                (''creator_name'', VStr ''Ann''),
                (''id'', VStr ''89abcdef0123456789abcdef'')]]"
  by (simp add: logo_def serialize_doc_def sample_def AList.delete_eq convert_item_def)

lemma serialize_hi:
  "serialize_all sample [hi] =
     Inr [Some [(''gig_id'', VStr ''89abcdef0123456789abcdef''),
                (''client_id'', VStr ''0123456789abcdef01234567''), (''message'', VStr ''hi''),
                (''offered_price'', VNull), (''status'', VStr ''pending''),
                (''id'', VStr ''aaaaaaaaaaaaaaaaaaaaaaaa'')]]"
  by (simp add: hi_def serialize_doc_def sample_def AList.delete_eq convert_item_def)

text \<open>C9 on the three listings of the example store: with empty parameters they
  answer Ann, her gig and the proposal; with an empty query and the category
  \<^verbatim>\<open>art\<close> no gig; with an empty category and the query \<^verbatim>\<open>ann\<close> her gig; with an
  empty client and Ann's identifier as the gig no proposal.\<close>

theorem empty_parameter_is_absent_witness:
  "fst (list_users sample (Some []) demo_db) =
     Inr [Some [(''name'', VStr ''Ann''), (''email'', VStr ''ann@x.com''),
                (''role'', VStr ''creator''), (''bio'', VNull), (''skills'', VList []),
                (''avatar_url'', VNull), (''is_active'', VBool True),
                (''id'', VStr ''0123456789abcdef01234567'')]] \<and>
   list_users sample (Some []) demo_db = list_users sample None demo_db \<and>
   fst (list_gigs sample (Some []) (Some []) demo_db) =
     Inr [Some [(''title'', VStr ''Logo''), (''description'', VStr ''design''),
                (''category'', VStr ''design''), (''price'', VNum 50),
                (''creator_id'', VStr ''0123456789abcdef01234567''),
                (''creator_name'', VStr ''Ann''),
                (''id'', VStr ''89abcdef0123456789abcdef'')]] \<and>
   fst (list_gigs sample (Some ''art'') (Some []) demo_db) = Inr [] \<and>
   fst (list_gigs sample (Some []) (Some ''ann'') demo_db) =
     Inr [Some [(''title'', VStr ''Logo''), (''description'', VStr ''design''),
                (''category'', VStr ''design''), (''price'', VNum 50),
                (''creator_id'', VStr ''0123456789abcdef01234567''),
                (''creator_name'', VStr ''Ann''),
                (''id'', VStr ''89abcdef0123456789abcdef'')]] \<and>
   fst (list_proposals sample (Some []) (Some []) demo_db) =
     Inr [Some [(''gig_id'', VStr ''89abcdef0123456789abcdef''),
                (''client_id'', VStr ''0123456789abcdef01234567''), (''message'', VStr ''hi''),
                (''offered_price'', VNull), (''status'', VStr ''pending''),
                (''id'', VStr ''aaaaaaaaaaaaaaaaaaaaaaaa'')]] \<and>
   fst (list_proposals sample (Some ''0123456789abcdef01234567'') (Some []) demo_db) = Inr [] \<and>
   calls (snd (list_gigs sample (Some []) (Some []) demo_db)) = [Find ''gig'' [] 100]"
proof -
  let ?a = "''0123456789abcdef01234567''"
  note t0 = empty_parameter_is_absent [of sample demo_db None None None "''art''" "search True ''art''"]
  note t1 = empty_parameter_is_absent [of sample demo_db None None None "''ann''" "search True ''ann''"]
  note t2 = empty_parameter_is_absent [of sample demo_db None None None ?a "search True ?a"]
  have cu: "take 100 (collections demo_db ''user'') = [ann]"
    and cg: "take 100 (collections demo_db ''gig'') = [logo]"
    and cp: "take 100 (collections demo_db ''proposal'') = [hi]"
    by (simp_all add: demo_db_def)
  have "fst (list_users sample (Some []) demo_db)
          = serialize_all sample (take 100 (collections demo_db ''user''))"
    using t0 by blast
  then have 1: "fst (list_users sample (Some []) demo_db) = serialize_all sample [ann]"
    by (simp only: cu)
  have 2: "list_users sample (Some []) demo_db = list_users sample None demo_db"
    using t0 by blast
  have "fst (list_gigs sample (Some []) (Some []) demo_db)
          = serialize_all sample (take 100 (collections demo_db ''gig''))"
    using t0 by blast
  then have 3: "fst (list_gigs sample (Some []) (Some []) demo_db) = serialize_all sample [logo]"
    by (simp only: cg)
  have f4: "take 100 (filter (\<lambda>d. map_of d ''category'' = Some (VStr ''art''))
               (collections demo_db ''gig'')) = []"
    by (simp add: demo_db_def logo_def)
  have "''art'' \<noteq> []" by simp
  then have "fst (list_gigs sample (Some ''art'') (Some []) demo_db) =
        serialize_all sample (take 100 (filter (\<lambda>d. map_of d ''category'' = Some (VStr ''art''))
               (collections demo_db ''gig'')))"
    using t0 by blast
  then have 4: "fst (list_gigs sample (Some ''art'') (Some []) demo_db) = Inr []"
    by (simp only: f4 serialize_all.simps)
  have r: "''ann'' \<noteq> [] \<and> regex sample ''ann'' ''i'' = Some (search True ''ann'')"
    by (simp add: sample_def sample_regex_def metachar_def)
  have f5: "take 100 (filter
           (\<lambda>d. search_in (Some (search True ''ann'')) (map_of d ''title'') \<or>
                search_in (Some (search True ''ann'')) (map_of d ''description'') \<or>
                search_in (Some (search True ''ann'')) (map_of d ''creator_name''))
           (collections demo_db ''gig'')) = [logo]"
    by (simp add: demo_db_def logo_def lower_def)
  have "fst (list_gigs sample (Some []) (Some ''ann'') demo_db) =
        serialize_all sample (take 100 (filter
           (\<lambda>d. search_in (Some (search True ''ann'')) (map_of d ''title'') \<or>
                search_in (Some (search True ''ann'')) (map_of d ''description'') \<or>
                search_in (Some (search True ''ann'')) (map_of d ''creator_name''))
           (collections demo_db ''gig'')))"
    using t1 r by blast
  then have 5: "fst (list_gigs sample (Some []) (Some ''ann'') demo_db) = serialize_all sample [logo]"
    by (simp only: f5)
  have "fst (list_proposals sample (Some []) (Some []) demo_db)
          = serialize_all sample (take 100 (collections demo_db ''proposal''))"
    using t0 by blast
  then have 6: "fst (list_proposals sample (Some []) (Some []) demo_db) = serialize_all sample [hi]"
    by (simp only: cp)
  have v: "?a \<noteq> [] \<and> is_valid sample ?a"
    by (simp add: sample_def hex_digit_def)
  have f7: "take 100 (filter (\<lambda>d. map_of d ''gig_id'' = Some (VStr ?a))
               (collections demo_db ''proposal'')) = []"
    by (simp add: demo_db_def hi_def)
  have "fst (list_proposals sample (Some ?a) (Some []) demo_db) =
        serialize_all sample (take 100 (filter (\<lambda>d. map_of d ''gig_id'' = Some (VStr ?a))
               (collections demo_db ''proposal'')))"
    using t2 v by blast
  then have 7: "fst (list_proposals sample (Some ?a) (Some []) demo_db) = Inr []"
    by (simp only: f7 serialize_all.simps)
  have "snd (list_gigs sample (Some []) (Some []) demo_db)
          = demo_db\<lparr>calls := calls demo_db @ [Find ''gig'' [] 100]\<rparr>"
    using t0 by blast
  then have 8: "calls (snd (list_gigs sample (Some []) (Some []) demo_db)) = [Find ''gig'' [] 100]"
    by (simp add: demo_db_def)
  show ?thesis
    using 1 [THEN trans, OF serialize_ann] 2 3 [THEN trans, OF serialize_logo] 4
      5 [THEN trans, OF serialize_logo] 6 [THEN trans, OF serialize_hi] 7 8
    by blast
qed

section \<open>The listing of gigs: proofs\<close>

lemma list_gigs_bad_pattern:
  "c \<noteq> [] \<Longrightarrow> p \<noteq> [] \<Longrightarrow> regex E p ''i'' = None \<Longrightarrow>
   fst (list_gigs E (Some c) (Some p) s) = Inl OperationFailure"
  by (simp add: list_gigs_def respond_def get_documents_def)

lemma list_gigs_pattern:
  "c \<noteq> [] \<Longrightarrow> p \<noteq> [] \<Longrightarrow> regex E p ''i'' = Some m \<Longrightarrow>
   fst (list_gigs E (Some c) (Some p) s) =
     serialize_all E (take 100 (filter
        (\<lambda>d. map_of d ''category'' = Some (VStr c) \<and>
             (search_in (Some m) (map_of d ''title'') \<or>
              search_in (Some m) (map_of d ''description'') \<or>
              search_in (Some m) (map_of d ''creator_name'')))
        (collections s ''gig'')))"
  by (simp add: list_gigs_def respond_def get_documents_def)

lemma search_in_contains:
  "search_in (Some (contains_ci p)) (map_of d k) = field_contains p d k"
proof (cases "map_of d k")
  case None
  then show ?thesis by (simp add: field_contains_def)
next
  case (Some v)
  then show ?thesis by (cases v) (simp_all add: field_contains_def)
qed

text \<open>The instance's engine reads a pattern without special characters literally: its
  search is the substring search, letter case aside.\<close>

lemma matches_here_literal:
  "CHR ''.'' \<notin> set p \<Longrightarrow> matches_here True p t = starts_with_ci p t"
  by (induction p t rule: starts_with_ci.induct) auto

lemma search_literal:
  "CHR ''.'' \<notin> set p \<Longrightarrow> search True p t = contains_ci p t"
  by (induction t) (simp_all add: matches_here_literal)

lemma sample_regex_literal:
  assumes "list_all (\<lambda>c. \<not> metachar c) p"
  shows "regex sample p ''i'' = Some (contains_ci p)"
proof -
  have "metachar (CHR ''.'')" by (simp add: metachar_def)
  with assms have d: "CHR ''.'' \<notin> set p"
    by (auto simp: list_all_iff)
  then have "search True p = contains_ci p"
    by (auto simp: search_literal)
  moreover have "list_all (\<lambda>c. \<not> metachar c \<or> c = CHR ''.'') p"
    using assms by (auto simp: list_all_iff)
  ultimately show ?thesis
    by (simp add: sample_def sample_regex_def)
qed

text \<open>
  Claim C6, as the code has it. On a store whose gigs all have an identifier, with a
  category and a query that are not empty: when the store rejects the query as a
  pattern, the listing fails; when the query compiles to the search \<open>m\<close>, the listing
  answers at most 100 documents, the serializations of the first 100 gigs, in the
  store's order, whose category is exactly the one asked and whose title, description
  or creator's name is a string that \<open>m\<close> finds; and when the store reads the query
  literally, these are the gigs of the stated filter: exact category, and the query
  contained, letter case aside, in one of the three fields.
\<close>

theorem list_gigs_matches:
  assumes "list_all has_id (collections s ''gig'')" and "c \<noteq> []" and "p \<noteq> []"
  shows
   "(regex E p ''i'' = None \<longrightarrow> fst (list_gigs E (Some c) (Some p) s) = Inl OperationFailure) \<and>
    (\<forall>m. regex E p ''i'' = Some m \<longrightarrow>
       (\<exists>out. fst (list_gigs E (Some c) (Some p) s) = Inr out \<and> length out \<le> 100 \<and>
          list_all2 (\<lambda>r d. serialize_doc E (Some d) = Inr r) out
            (take 100 (filter
               (\<lambda>d. map_of d ''category'' = Some (VStr c) \<and>
                    (search_in (Some m) (map_of d ''title'') \<or>
                     search_in (Some m) (map_of d ''description'') \<or>
                     search_in (Some m) (map_of d ''creator_name'')))
               (collections s ''gig''))))) \<and>
    (regex E p ''i'' = Some (contains_ci p) \<longrightarrow>
       (\<exists>out. fst (list_gigs E (Some c) (Some p) s) = Inr out \<and> length out \<le> 100 \<and>
          list_all2 (\<lambda>r d. serialize_doc E (Some d) = Inr r) out
            (take 100 (filter (spec_gig_match c p) (collections s ''gig'')))))"
proof -
  have 1: "regex E p ''i'' = None \<longrightarrow> fst (list_gigs E (Some c) (Some p) s) = Inl OperationFailure"
    using assms(2,3) by (simp add: list_gigs_bad_pattern)
  have 2: "\<exists>out. fst (list_gigs E (Some c) (Some p) s) = Inr out \<and> length out \<le> 100 \<and>
          list_all2 (\<lambda>r d. serialize_doc E (Some d) = Inr r) out
            (take 100 (filter
               (\<lambda>d. map_of d ''category'' = Some (VStr c) \<and>
                    (search_in (Some m) (map_of d ''title'') \<or>
                     search_in (Some m) (map_of d ''description'') \<or>
                     search_in (Some m) (map_of d ''creator_name'')))
               (collections s ''gig'')))"
    if "regex E p ''i'' = Some m" for m
    unfolding list_gigs_pattern [OF assms(2,3) that]
    using listing_served [OF assms(1)] by blast
  have 3: "\<exists>out. fst (list_gigs E (Some c) (Some p) s) = Inr out \<and> length out \<le> 100 \<and>
          list_all2 (\<lambda>r d. serialize_doc E (Some d) = Inr r) out
            (take 100 (filter (spec_gig_match c p) (collections s ''gig'')))"
    if "regex E p ''i'' = Some (contains_ci p)"
  proof -
    have "(\<lambda>d. map_of d ''category'' = Some (VStr c) \<and>
                    (search_in (Some (contains_ci p)) (map_of d ''title'') \<or>
                     search_in (Some (contains_ci p)) (map_of d ''description'') \<or>
                     search_in (Some (contains_ci p)) (map_of d ''creator_name'')))
          = spec_gig_match c p"
      by (rule ext) (simp add: spec_gig_match_def search_in_contains)
    with 2 [OF that] show ?thesis by simp
  qed
  show ?thesis using 1 2 3 by blast
qed

text \<open>C6 on the query \<^verbatim>\<open>logo\<close>, which finds Ann's gig, and on an open parenthesis,
  which is not a pattern.\<close>

theorem list_gigs_matches_witness:
  "(\<exists>out. fst (list_gigs sample (Some ''design'') (Some ''logo'') demo_db) = Inr out \<and>
          list_all2 (\<lambda>r d. serialize_doc sample (Some d) = Inr r) out [logo]) \<and>
   fst (list_gigs sample (Some ''design'') (Some ''('') demo_db) = Inl OperationFailure"
proof -
  have h: "list_all has_id (collections demo_db ''gig'')"
    by (simp add: demo_db_def logo_def has_id_def)
  have r: "regex sample ''logo'' ''i'' = Some (contains_ci ''logo'')"
    by (rule sample_regex_literal) (simp add: metachar_def)
  have f: "take 100 (filter (spec_gig_match ''design'' ''logo'') (collections demo_db ''gig'')) = [logo]"
    by (simp add: demo_db_def logo_def spec_gig_match_def field_contains_def lower_def)
  have b: "regex sample ''('' ''i'' = None"
    by (simp add: sample_def sample_regex_def metachar_def)
  from list_gigs_matches [OF h, of "''design''" "''logo''" sample] r f
  have 1: "\<exists>out. fst (list_gigs sample (Some ''design'') (Some ''logo'') demo_db) = Inr out \<and>
          list_all2 (\<lambda>r d. serialize_doc sample (Some d) = Inr r) out [logo]"
    by auto
  from list_gigs_matches [OF h, of "''design''" "''(''" sample] b
  have 2: "fst (list_gigs sample (Some ''design'') (Some ''('') demo_db) = Inl OperationFailure"
    by simp
  show ?thesis using 1 2 by blast
qed

text \<open>Claim C6 as stated fails on a query with a special character: the query of one
  dot answers Ann's gig, and no field of that gig contains a dot.\<close>

theorem list_gigs_dot_not_substring:
  "fst (list_gigs sample (Some ''design'') (Some ''.'') demo_db) =
     Inr [Some [(''title'', VStr ''Logo''), (''description'', VStr ''design''),
                (''category'', VStr ''design''), (''price'', VNum 50),
                (''creator_id'', VStr ''0123456789abcdef01234567''),
                (''creator_name'', VStr ''Ann''),
                (''id'', VStr ''89abcdef0123456789abcdef'')]] \<and>
   \<not> spec_gig_match ''design'' ''.'' logo"
proof -
  have r: "regex sample ''.'' ''i'' = Some (search True ''.'')"
    by (simp add: sample_def sample_regex_def)
  have f: "take 100 (filter
        (\<lambda>d. map_of d ''category'' = Some (VStr ''design'') \<and>
             (search_in (Some (search True ''.'')) (map_of d ''title'') \<or>
              search_in (Some (search True ''.'')) (map_of d ''description'') \<or>
              search_in (Some (search True ''.'')) (map_of d ''creator_name'')))
        (collections demo_db ''gig'')) = [logo]"
    by (simp add: demo_db_def logo_def)
  have e: "serialize_all sample [logo] =
     Inr [Some [(''title'', VStr ''Logo''), (''description'', VStr ''design''),
                (''category'', VStr ''design''), (''price'', VNum 50),
                (''creator_id'', VStr ''0123456789abcdef01234567''),
                (''creator_name'', VStr ''Ann''),
                (''id'', VStr ''89abcdef0123456789abcdef'')]]"
    by (simp add: logo_def serialize_doc_def sample_def AList.delete_eq convert_item_def)
  have 1: "fst (list_gigs sample (Some ''design'') (Some ''.'') demo_db) = serialize_all sample [logo]"
    using list_gigs_pattern [of "''design''" "''.''" sample "search True ''.''" demo_db] r f
    by simp
  have 2: "\<not> spec_gig_match ''design'' ''.'' logo"
    by (simp add: spec_gig_match_def field_contains_def logo_def lower_def)
  show ?thesis using 1 e 2 by simp
qed

end
